theory Spec2Isabelle
  imports Main
begin

section \<open>JavaScript values\<close>

text \<open>
  The values that flow through the client: parsed JSON bodies, secret values, and the
  arguments a caller may pass where a string or an array is expected. The client does
  no arithmetic on these values: of a number it asks only whether it is truthy and what
  string it converts to. A number is therefore represented by the string JavaScript
  converts it to (\<open>5\<close> is \<open>''5''\<close>, \<open>1.5\<close> is \<open>''1.5''\<close>, \<open>1e21\<close> is
  \<open>''1e+21''\<close>, both zeros are \<open>''0''\<close>). A parsed object is the list of its
  properties, each name once, with \<open>map_of\<close> as lookup.
\<close>

datatype jsval =
    JUndefined
  | JNull
  | JBool bool
  | JNum string
  | JStr string
  | JArr "jsval list"
  | JObj "(string \<times> jsval) list"

text \<open>Truthiness, as used by \<open>||\<close>, \<open>&&\<close> and \<open>!\<close>.\<close>

fun truthy :: "jsval \<Rightarrow> bool" where
  "truthy JUndefined = False"
| "truthy JNull = False"
| "truthy (JBool b) = b"
| "truthy (JNum n) = (n \<noteq> ''0'' \<and> n \<noteq> ''NaN'')"
| "truthy (JStr s) = (s \<noteq> [])"
| "truthy (JArr _) = True"
| "truthy (JObj _) = True"

text \<open>The decimal digits of a natural number, for the status code in a message.\<close>

fun digit_char :: "nat \<Rightarrow> char" where
  "digit_char n = ''0123456789'' ! n"

fun show_nat :: "nat \<Rightarrow> string" where
  "show_nat n = (if n < 10 then [digit_char n] else show_nat (n div 10) @ [digit_char (n mod 10)])"

fun join :: "string \<Rightarrow> string list \<Rightarrow> string" where
  "join sep [] = []"
| "join sep [x] = x"
| "join sep (x # y # ys) = x @ sep @ join sep (y # ys)"

text \<open>String conversion, as applied by \<open>new Error(x)\<close> and by template literals.\<close>

fun to_string :: "jsval \<Rightarrow> string" where
  "to_string JUndefined = ''undefined''"
| "to_string JNull = ''null''"
| "to_string (JBool b) = (if b then ''true'' else ''false'')"
| "to_string (JNum n) = n"
| "to_string (JStr s) = s"
| "to_string (JArr xs) =
     join '','' (map (\<lambda>x. if x = JNull \<or> x = JUndefined then [] else to_string x) xs)"
| "to_string (JObj _) = ''[object Object]''"

section \<open>Errors\<close>

text \<open>
  An error object: \<open>name\<close> and \<open>message\<close> as every \<open>Error\<close> has them, and the three
  fields \<open>_makeRequest\<close> attaches to an HTTP failure (\<open>None\<close> where the property is
  not set).
\<close>

record js_error =
  name :: string
  message :: string
  status :: "nat option"
  statusText :: "string option"
  data :: "jsval option"

definition new_Error :: "string \<Rightarrow> js_error" where
  "new_Error msg = \<lparr> name = ''Error'', message = msg, status = None, statusText = None, data = None \<rparr>"

definition new_TypeError :: "string \<Rightarrow> js_error" where
  "new_TypeError msg = \<lparr> name = ''TypeError'', message = msg, status = None, statusText = None, data = None \<rparr>"

definition new_SyntaxError :: "string \<Rightarrow> js_error" where
  "new_SyntaxError msg = \<lparr> name = ''SyntaxError'', message = msg, status = None, statusText = None, data = None \<rparr>"

definition new_AbortError :: "string \<Rightarrow> js_error" where
  "new_AbortError msg = \<lparr> name = ''AbortError'', message = msg, status = None, statusText = None, data = None \<rparr>"

text \<open>What a \<open>throw\<close> carries: an error object, or \<open>undefined\<close> (\<open>throw lastError\<close>
  with \<open>lastError\<close> never assigned).\<close>

datatype thrown = ThrownUndefined | Thrown js_error

text \<open>
  Property read \<open>v.p\<close> for the property names the client reads (\<open>message\<close>,
  \<open>value\<close>), none of which is a built-in property of a primitive or an array:
  reading from \<open>null\<close> or \<open>undefined\<close> throws a TypeError.
\<close>

definition cannot_read :: "string \<Rightarrow> string \<Rightarrow> js_error" where
  "cannot_read what p =
     new_TypeError (''Cannot read properties of '' @ what @ '' (reading '' @ [CHR 0x27] @ p @ [CHR 0x27] @ '')'')"

fun get_prop :: "jsval \<Rightarrow> string \<Rightarrow> js_error + jsval" where
  "get_prop JUndefined p = Inl (cannot_read ''undefined'' p)"
| "get_prop JNull p = Inl (cannot_read ''null'' p)"
| "get_prop (JObj kvs) p = Inr (case map_of kvs p of None \<Rightarrow> JUndefined | Some v \<Rightarrow> v)"
| "get_prop _ p = Inr JUndefined"

section \<open>The client and its environment\<close>

text \<open>
  The Vault instance: the credential, the resolved configuration (\<open>this.config\<close>) and the
  two maps of the cache. \<open>retries\<close> is a count of attempts and \<open>cacheTTL\<close> a duration in
  milliseconds; clock readings (\<open>Date.now()\<close>) are integers.
\<close>

record vault =
  apiKey :: string
  apiUrl :: string
  timeout :: nat
  retries :: nat
  cache_enabled :: bool
  cacheTTL :: int
  cache :: "string \<rightharpoonup> jsval"
  cacheTimestamps :: "string \<rightharpoonup> int"

text \<open>The second argument of \<open>_makeRequest\<close>: \<open>opt_headers\<close> is \<open>Some h\<close> when the
  object has a \<open>headers\<close> property, \<open>opt_timeout\<close> likewise, \<open>opt_rest\<close> holds any other
  property (method, body, ...).\<close>

record request_options =
  opt_headers :: "(string \<rightharpoonup> string) option"
  opt_timeout :: "nat option"
  opt_rest :: "string \<rightharpoonup> jsval"

definition no_options :: request_options where
  "no_options = \<lparr> opt_headers = None, opt_timeout = None, opt_rest = Map.empty \<rparr>"

text \<open>What \<open>fetch\<close> is called with.\<close>

record request =
  url :: string
  req_headers :: "string \<rightharpoonup> string"
  req_timeout :: nat
  req_rest :: "string \<rightharpoonup> jsval"

text \<open>
  What one call of \<open>fetch\<close> comes to: a response with its status, status text and the
  outcome of \<open>response.json()\<close> (\<open>Inl msg\<close>: the body is not JSON and parsing throws a
  SyntaxError with that message), a network-level rejection, or the abort fired by the
  timeout timer.
\<close>

datatype fetch_result =
    Response nat string "string + jsval"
  | NetworkFailure string
  | Aborted

text \<open>
  The remote side is a parameter: it answers the \<open>n\<close>-th call (counted from 0 over the
  life of the world) to a request with a result and the time the call took.
\<close>

type_synonym backend = "nat \<Rightarrow> request \<Rightarrow> fetch_result \<times> nat"

text \<open>The observable world: the clock and, in order, the calls to \<open>fetch\<close> made and the
  backoff delays slept.\<close>

datatype event = Fetch request | Sleep nat

record world =
  now :: int
  events :: "event list"

fun calls_of :: "event list \<Rightarrow> request list" where
  "calls_of [] = []"
| "calls_of (Fetch r # es) = r # calls_of es"
| "calls_of (Sleep d # es) = calls_of es"

definition calls :: "world \<Rightarrow> request list" where
  "calls w = calls_of (events w)"

definition do_fetch :: "backend \<Rightarrow> request \<Rightarrow> world \<Rightarrow> fetch_result \<times> world" where
  "do_fetch be req w =
     (let (res, d) = be (length (calls w)) req
      in (res, w\<lparr> now := now w + int d, events := events w @ [Fetch req] \<rparr>))"

definition sleep :: "nat \<Rightarrow> world \<Rightarrow> world" where
  "sleep d w = w\<lparr> now := now w + int d, events := events w @ [Sleep d] \<rparr>"

section \<open>\<open>_makeRequest\<close>\<close>

definition default_headers :: "vault \<Rightarrow> (string \<rightharpoonup> string)" where
  "default_headers v =
     [''Authorization'' \<mapsto> ''Bearer '' @ apiKey v,
      ''Content-Type'' \<mapsto> ''application/json'',
      ''User-Agent'' \<mapsto> ''SoftoVault-SDK/0.1.0'']"

text \<open>The object spread \<open>...options.headers\<close>: nothing when the property is absent.\<close>

definition spread_headers :: "request_options \<Rightarrow> (string \<rightharpoonup> string)" where
  "spread_headers opts = (case opt_headers opts of None \<Rightarrow> Map.empty | Some h \<Rightarrow> h)"

text \<open>
  \<open>requestOptions = { headers: {defaults, ...options.headers}, timeout, ...options }\<close>:
  the spread of \<open>options\<close> comes last, so each property \<open>options\<close> has replaces the one
  written before it, \<open>headers\<close> included.
\<close>

definition build_request :: "vault \<Rightarrow> string \<Rightarrow> request_options \<Rightarrow> request" where
  "build_request v endpoint opts =
     (let merged = default_headers v ++ spread_headers opts
      in \<lparr> url = apiUrl v @ endpoint,
           req_headers = (case opt_headers opts of None \<Rightarrow> merged | Some h \<Rightarrow> h),
           req_timeout = (case opt_timeout opts of None \<Rightarrow> timeout v | Some t \<Rightarrow> t),
           req_rest = opt_rest opts \<rparr>)"

definition response_ok :: "nat \<Rightarrow> bool" where
  "response_ok st = (200 \<le> st \<and> st \<le> 299)"

text \<open>
  The body of the \<open>try\<close> block after \<open>fetch\<close> has settled: \<open>Inl\<close> is the error
  thrown into the \<open>catch\<close>, \<open>Inr\<close> the payload returned. A rejected \<open>fetch\<close> throws
  its own error; a response that is not \<open>ok\<close> has its body parsed (\<open>{}\<close> when parsing
  fails), \<open>errorData.message\<close> read, and an error built with status, status text and
  body attached; an \<open>ok\<close> response returns its parsed body, or throws the parser's error.
\<close>

definition handle_result :: "fetch_result \<Rightarrow> js_error + jsval" where
  "handle_result res =
     (case res of
        NetworkFailure msg \<Rightarrow> Inl (new_TypeError msg)
      | Aborted \<Rightarrow> Inl (new_AbortError ''This operation was aborted'')
      | Response st stt body \<Rightarrow>
          if \<not> response_ok st then
            (let errorData = (case body of Inl _ \<Rightarrow> JObj [] | Inr d \<Rightarrow> d)
             in case get_prop errorData ''message'' of
                  Inl te \<Rightarrow> Inl te
                | Inr m \<Rightarrow>
                    Inl ((new_Error (if truthy m then to_string m
                                     else ''HTTP '' @ show_nat st @ '': '' @ stt))
                           \<lparr> status := Some st, statusText := Some stt, data := Some errorData \<rparr>))
          else (case body of
                  Inl msg \<Rightarrow> Inl (new_SyntaxError msg)
                | Inr d \<Rightarrow> Inr d))"

text \<open>One attempt: the call, then the handling of what came back.\<close>

definition attempt_once :: "backend \<Rightarrow> request \<Rightarrow> world \<Rightarrow> (js_error + jsval) \<times> world" where
  "attempt_once be req w = (let (res, w1) = do_fetch be req w in (handle_result res, w1))"

text \<open>\<open>error.status >= 400 && error.status < 500 && error.status !== 429\<close>; false when
  the error has no status.\<close>

definition is_client_error :: "js_error \<Rightarrow> bool" where
  "is_client_error e =
     (case status e of None \<Rightarrow> False | Some s \<Rightarrow> 400 \<le> s \<and> s < 500 \<and> s \<noteq> 429)"

definition backoff_delay :: "nat \<Rightarrow> nat" where
  "backoff_delay attempt = 2 ^ attempt * 1000"

text \<open>The \<open>for\<close> loop, from \<open>attempt\<close> on, with \<open>lastError\<close> as it stands.\<close>

function request_loop ::
  "vault \<Rightarrow> backend \<Rightarrow> request \<Rightarrow> nat \<Rightarrow> thrown \<Rightarrow> world \<Rightarrow> (thrown + jsval) \<times> world" where
  "request_loop v be req attempt lastError w =
     (if attempt \<le> retries v then
        (case attempt_once be req w of
           (Inr d, w1) \<Rightarrow> (Inr d, w1)
         | (Inl err, w1) \<Rightarrow>
             if is_client_error err then (Inl (Thrown err), w1)
             else if attempt = retries v then (Inl (Thrown err), w1)
             else request_loop v be req (Suc attempt) (Thrown err) (sleep (backoff_delay attempt) w1))
      else (Inl lastError, w))"
  by pat_completeness auto
termination
  by (relation "measure (\<lambda>(v, be, req, attempt, lastError, w). Suc (retries v) - attempt)") auto

definition makeRequest ::
  "vault \<Rightarrow> backend \<Rightarrow> string \<Rightarrow> request_options \<Rightarrow> world \<Rightarrow> (thrown + jsval) \<times> world" where
  "makeRequest v be endpoint opts w =
     request_loop v be (build_request v endpoint opts) 0 ThrownUndefined w"

section \<open>The cache\<close>

text \<open>\<open>_isCacheValid(key)\<close> at clock reading \<open>t\<close>. The result of
  \<open>timestamp && (Date.now() - timestamp) < cacheTTL\<close> is falsy when the timestamp is
  missing or is 0.\<close>

definition isCacheValid :: "vault \<Rightarrow> int \<Rightarrow> string \<Rightarrow> bool" where
  "isCacheValid v t key =
     (if \<not> cache_enabled v \<or> cache v key = None then False
      else case cacheTimestamps v key of
             None \<Rightarrow> False
           | Some timestamp \<Rightarrow> timestamp \<noteq> 0 \<and> t - timestamp < cacheTTL v)"

definition setCache :: "vault \<Rightarrow> int \<Rightarrow> string \<Rightarrow> jsval \<Rightarrow> vault" where
  "setCache v t key val =
     (if \<not> cache_enabled v then v
      else v\<lparr> cache := (cache v)(key \<mapsto> val), cacheTimestamps := (cacheTimestamps v)(key \<mapsto> t) \<rparr>)"

definition clearCache :: "vault \<Rightarrow> vault" where
  "clearCache v =
     (if cache_enabled v then v\<lparr> cache := Map.empty, cacheTimestamps := Map.empty \<rparr> else v)"

text \<open>\<open>Map.prototype.get\<close>: \<open>undefined\<close> for a missing key.\<close>

definition cache_get :: "vault \<Rightarrow> string \<Rightarrow> jsval" where
  "cache_get v key = (case cache v key of None \<Rightarrow> JUndefined | Some x \<Rightarrow> x)"

section \<open>The public operations\<close>

text \<open>The options object of \<open>get\<close> and \<open>getMany\<close>: \<open>useCache\<close> is \<open>None\<close> when the
  property is absent; \<open>failOnMissing\<close> is its truthiness.\<close>

record options =
  useCache :: "bool option"
  failOnMissing :: bool

definition default_options :: options where
  "default_options = \<lparr> useCache = None, failOnMissing = False \<rparr>"

definition hex_digit :: "nat \<Rightarrow> char" where
  "hex_digit n = ''0123456789ABCDEF'' ! n"

definition uri_unreserved :: "char \<Rightarrow> bool" where
  "uri_unreserved c =
     (let n = (of_char c :: nat)
      in (65 \<le> n \<and> n \<le> 90) \<or> (97 \<le> n \<and> n \<le> 122) \<or> (48 \<le> n \<and> n \<le> 57)
         \<or> c \<in> set ''-_.!~*()'' \<or> n = 39)"

text \<open>\<open>encodeURIComponent\<close> over the UTF-8 bytes of the key.\<close>

definition encodeURIComponent :: "string \<Rightarrow> string" where
  "encodeURIComponent s =
     concat (map (\<lambda>c. if uri_unreserved c then [c]
                       else [CHR ''%'', hex_digit (of_char c div 16), hex_digit (of_char c mod 16)]) s)"

definition not_found_message :: "string \<Rightarrow> string" where
  "not_found_message key = ''Secret with key '' @ [CHR 0x27] @ key @ [CHR 0x27] @ '' not found''"

text \<open>The \<open>catch\<close> block of \<open>get\<close>: \<open>error.status === 404\<close> becomes a fresh error naming
  the key, anything else is thrown again. Reading \<open>status\<close> from \<open>undefined\<close> throws.\<close>

definition get_catch :: "string \<Rightarrow> thrown \<Rightarrow> thrown" where
  "get_catch key err =
     (case err of
        ThrownUndefined \<Rightarrow> Thrown (cannot_read ''undefined'' ''status'')
      | Thrown e \<Rightarrow> if status e = Some 404 then Thrown (new_Error (not_found_message key)) else Thrown e)"

definition get ::
  "vault \<Rightarrow> backend \<Rightarrow> jsval \<Rightarrow> options \<Rightarrow> world \<Rightarrow> (thrown + jsval) \<times> vault \<times> world" where
  "get v be key opts w =
     (case key of
        JStr k \<Rightarrow>
          if k = [] then (Inl (Thrown (new_Error ''Secret key must be a non-empty string'')), v, w)
          else
            (let use = (useCache opts \<noteq> Some False);
                 cacheKey = ''secret:'' @ k
             in if use \<and> isCacheValid v (now w) cacheKey then (Inr (cache_get v cacheKey), v, w)
                else
                  (case makeRequest v be (''/key/'' @ encodeURIComponent k) no_options w of
                     (Inr d, w1) \<Rightarrow>
                       (case get_prop d ''value'' of
                          Inr val \<Rightarrow> (Inr val, (if use then setCache v (now w1) cacheKey val else v), w1)
                        | Inl te \<Rightarrow> (Inl (get_catch k (Thrown te)), v, w1))
                   | (Inl err, w1) \<Rightarrow> (Inl (get_catch k err), v, w1)))
      | _ \<Rightarrow> (Inl (Thrown (new_Error ''Secret key must be a non-empty string'')), v, w))"

text \<open>\<open>String.prototype.includes\<close>.\<close>

fun str_includes :: "string \<Rightarrow> string \<Rightarrow> bool" where
  "str_includes [] sub = (sub = [])"
| "str_includes (c # cs) sub = (take (length sub) (c # cs) = sub \<or> str_includes cs sub)"

definition exists ::
  "vault \<Rightarrow> backend \<Rightarrow> jsval \<Rightarrow> world \<Rightarrow> (thrown + bool) \<times> vault \<times> world" where
  "exists v be key w =
     (case get v be key default_options w of
        (Inr _, v1, w1) \<Rightarrow> (Inr True, v1, w1)
      | (Inl ThrownUndefined, v1, w1) \<Rightarrow> (Inl (Thrown (cannot_read ''undefined'' ''status'')), v1, w1)
      | (Inl (Thrown e), v1, w1) \<Rightarrow>
          if status e = Some 404 \<or> str_includes (message e) ''not found'' then (Inr False, v1, w1)
          else (Inl (Thrown e), v1, w1))"

text \<open>
  The object that \<open>getMany\<close> fills: a plain object, that is its own properties and
  its prototype, which is \<open>Object.prototype\<close> for \<open>{}\<close>.
\<close>

datatype proto = ProtoObject | ProtoNull | ProtoValue jsval

record js_object =
  own_props :: "string \<rightharpoonup> jsval"
  prototype :: proto

definition empty_object :: js_object where
  "empty_object = \<lparr> own_props = Map.empty, prototype = ProtoObject \<rparr>"

text \<open>
  Whether an assignment to the name \<open>__proto__\<close> reaches the accessor that
  \<open>Object.prototype\<close> defines under that name: it does through \<open>Object.prototype\<close>
  itself and through a parsed JSON value that has no own property of that name, and it
  does not when the prototype is \<open>null\<close>.
\<close>

definition inherits_proto_accessor :: "proto \<Rightarrow> bool" where
  "inherits_proto_accessor p =
     (case p of
        ProtoObject \<Rightarrow> True
      | ProtoNull \<Rightarrow> False
      | ProtoValue ob \<Rightarrow> (case ob of JObj kvs \<Rightarrow> map_of kvs ''__proto__'' = None | _ \<Rightarrow> True))"

text \<open>
  The assignment \<open>results[p] = val\<close>. Under the name \<open>__proto__\<close>, with the accessor in
  reach, it sets the prototype when \<open>val\<close> is an object or \<open>null\<close> and does nothing
  otherwise; in every other case it writes the own property \<open>p\<close>.
\<close>

definition assign_property :: "js_object \<Rightarrow> string \<Rightarrow> jsval \<Rightarrow> js_object" where
  "assign_property ob p val =
     (if p = ''__proto__'' \<and> inherits_proto_accessor (prototype ob) then
        (case val of
           JNull \<Rightarrow> ob\<lparr> prototype := ProtoNull \<rparr>
         | JObj kvs \<Rightarrow> ob\<lparr> prototype := ProtoValue val \<rparr>
         | JArr xs \<Rightarrow> ob\<lparr> prototype := ProtoValue val \<rparr>
         | _ \<Rightarrow> ob)
      else ob\<lparr> own_props := (own_props ob)(p \<mapsto> val) \<rparr>)"

text \<open>
  What the arrow function of \<open>getMany\<close> does once the \<open>get\<close> of its key has settled
  with \<open>r\<close>: \<open>results[key] = value\<close> on success; in the \<open>catch\<close> block,
  \<open>errors.push({key, error: error.message})\<close> under \<open>failOnMissing\<close> and
  \<open>results[key] = null\<close> otherwise. \<open>results[key]\<close> names the property by the string
  conversion of the key. A \<open>catch\<close> block that itself throws (reading \<open>message\<close> from
  \<open>undefined\<close>) leaves no trace: \<open>Promise.allSettled\<close> absorbs it.
\<close>

definition record_outcome ::
  "options \<Rightarrow> jsval \<Rightarrow> thrown + jsval \<Rightarrow> js_object \<times> (jsval \<times> string) list
     \<Rightarrow> js_object \<times> (jsval \<times> string) list" where
  "record_outcome opts key r acc =
     (case acc of
        (results, errors) \<Rightarrow>
          (case r of
             Inr val \<Rightarrow> (assign_property results (to_string key) val, errors)
           | Inl err \<Rightarrow>
               if failOnMissing opts then
                 (case err of
                    ThrownUndefined \<Rightarrow> (results, errors)
                  | Thrown e \<Rightarrow> (results, errors @ [(key, message e)]))
               else (assign_property results (to_string key) JNull, errors)))"

text \<open>
  \<open>keys.map(async (key) => ...)\<close> starts every task before any of them finishes: each
  runs up to its first wait, and from then on the tasks advance one event at a time, in
  the order in which their responses arrive and their backoff timers fire. A task is
  finished, or waits for the response to the \<open>fetch\<close> of its attempt (the answer that
  is on its way, and the clock reading at which it arrives), or waits for the backoff
  timer set after a failed attempt (with the error of that attempt, \<open>lastError\<close>).
\<close>

datatype task =
    Done
  | AwaitFetch string nat fetch_result int
  | AwaitTimer string nat js_error int

text \<open>A batch in flight: the tasks in the order of the keys, the \<open>results\<close> object and
  the \<open>errors\<close> array of \<open>getMany\<close>, the instance and the world.\<close>

record batch =
  b_tasks :: "task list"
  b_results :: js_object
  b_errors :: "(jsval \<times> string) list"
  b_vault :: vault
  b_world :: world

text \<open>One attempt begins: \<open>fetch\<close> is called now, and the remote end's answer to this
  call arrives after the time the call takes.\<close>

definition issue_fetch :: "vault \<Rightarrow> backend \<Rightarrow> string \<Rightarrow> nat \<Rightarrow> world \<Rightarrow> task \<times> world" where
  "issue_fetch v be k attempt w =
     (let req = build_request v (''/key/'' @ encodeURIComponent k) no_options;
          (res, d) = be (length (calls w)) req
      in (AwaitFetch k attempt res (now w + int d), w\<lparr> events := events w @ [Fetch req] \<rparr>))"

text \<open>
  \<open>get(key, options)\<close> up to its first wait: the check of the key and the cache lookup
  settle it at once (\<open>Inr\<close>, with what it throws or returns); otherwise attempt 0 of
  the request is under way (\<open>Inl\<close>).
\<close>

definition start_get ::
  "vault \<Rightarrow> backend \<Rightarrow> options \<Rightarrow> jsval \<Rightarrow> world \<Rightarrow> (task + (thrown + jsval)) \<times> world" where
  "start_get v be opts key w =
     (case key of
        JStr k \<Rightarrow>
          if k = [] then (Inr (Inl (Thrown (new_Error ''Secret key must be a non-empty string''))), w)
          else
            (let use = (useCache opts \<noteq> Some False);
                 cacheKey = ''secret:'' @ k
             in if use \<and> isCacheValid v (now w) cacheKey then (Inr (Inr (cache_get v cacheKey)), w)
                else (case issue_fetch v be k 0 w of (t, w1) \<Rightarrow> (Inl t, w1)))
      | _ \<Rightarrow> (Inr (Inl (Thrown (new_Error ''Secret key must be a non-empty string''))), w))"

fun start_keys ::
  "vault \<Rightarrow> backend \<Rightarrow> options \<Rightarrow> jsval list \<Rightarrow> world
     \<Rightarrow> (jsval \<times> (task + (thrown + jsval))) list \<times> world" where
  "start_keys v be opts [] w = ([], w)"
| "start_keys v be opts (key # keys) w =
     (case start_get v be opts key w of
        (st, w1) \<Rightarrow>
          (case start_keys v be opts keys w1 of
             (sts, w2) \<Rightarrow> ((key, st) # sts, w2)))"

text \<open>The tasks that settled at once run their continuation before any response
  arrives, in the order of the keys.\<close>

fun record_immediate ::
  "options \<Rightarrow> (jsval \<times> (task + (thrown + jsval))) list \<Rightarrow> js_object \<times> (jsval \<times> string) list
     \<Rightarrow> js_object \<times> (jsval \<times> string) list" where
  "record_immediate opts [] acc = acc"
| "record_immediate opts ((key, Inl t) # sts) acc = record_immediate opts sts acc"
| "record_immediate opts ((key, Inr r) # sts) acc =
     record_immediate opts sts (record_outcome opts key r acc)"

fun task_of :: "jsval \<times> (task + (thrown + jsval)) \<Rightarrow> task" where
  "task_of (key, Inl t) = t"
| "task_of (key, Inr r) = Done"

text \<open>Task \<open>i\<close> settles with \<open>r\<close>: its continuation runs and the task is finished.\<close>

definition settle :: "options \<Rightarrow> nat \<Rightarrow> string \<Rightarrow> thrown + jsval \<Rightarrow> batch \<Rightarrow> batch" where
  "settle opts i k r b =
     (case record_outcome opts (JStr k) r (b_results b, b_errors b) of
        (res, errs) \<Rightarrow> b\<lparr> b_tasks := (b_tasks b)[i := Done], b_results := res, b_errors := errs \<rparr>)"

text \<open>
  The event task \<open>i\<close> waits for happens, at the clock reading it is due. A response is
  handled as in \<open>_makeRequest\<close> and \<open>get\<close>: a payload gives the value, which is cached
  and returned; a client error, or any error on the last attempt, is thrown through the
  \<open>catch\<close> block of \<open>get\<close>; any other error starts the backoff timer. When the timer
  fires the loop goes on: the next attempt begins if \<open>attempt + 1 <= retries\<close>, else
  \<open>lastError\<close> is thrown.
\<close>

definition fire :: "backend \<Rightarrow> options \<Rightarrow> nat \<Rightarrow> batch \<Rightarrow> batch" where
  "fire be opts i b =
     (case b_tasks b ! i of
        Done \<Rightarrow> b
      | AwaitFetch k attempt res due \<Rightarrow>
          (let v = b_vault b;
               w = (b_world b)\<lparr> now := due \<rparr>;
               use = (useCache opts \<noteq> Some False);
               cacheKey = ''secret:'' @ k
           in case handle_result res of
                Inr d \<Rightarrow>
                  (case get_prop d ''value'' of
                     Inr val \<Rightarrow>
                       settle opts i k (Inr val)
                         (b\<lparr> b_vault := (if use then setCache v (now w) cacheKey val else v),
                             b_world := w \<rparr>)
                   | Inl te \<Rightarrow> settle opts i k (Inl (get_catch k (Thrown te))) (b\<lparr> b_world := w \<rparr>))
              | Inl err \<Rightarrow>
                  if is_client_error err then
                    settle opts i k (Inl (get_catch k (Thrown err))) (b\<lparr> b_world := w \<rparr>)
                  else if attempt = retries v then
                    settle opts i k (Inl (get_catch k (Thrown err))) (b\<lparr> b_world := w \<rparr>)
                  else
                    b\<lparr> b_tasks := (b_tasks b)
                           [i := AwaitTimer k attempt err (now w + int (backoff_delay attempt))],
                       b_world := w\<lparr> events := events w @ [Sleep (backoff_delay attempt)] \<rparr> \<rparr>)
      | AwaitTimer k attempt err due \<Rightarrow>
          (let v = b_vault b;
               w = (b_world b)\<lparr> now := due \<rparr>
           in if Suc attempt \<le> retries v then
                (case issue_fetch v be k (Suc attempt) w of
                   (t, w1) \<Rightarrow> b\<lparr> b_tasks := (b_tasks b)[i := t], b_world := w1 \<rparr>)
              else settle opts i k (Inl (get_catch k (Thrown err))) (b\<lparr> b_world := w \<rparr>)))"

fun due_of :: "task \<Rightarrow> int option" where
  "due_of Done = None"
| "due_of (AwaitFetch k attempt res due) = Some due"
| "due_of (AwaitTimer k attempt err due) = Some due"

text \<open>The waiting task whose event is due first, with its position counted from \<open>n\<close>;
  of two events due at the same reading, the one of the earlier key.\<close>

fun pick_from :: "nat \<Rightarrow> task list \<Rightarrow> (nat \<times> int) option" where
  "pick_from n [] = None"
| "pick_from n (t # ts) =
     (case due_of t of
        None \<Rightarrow> pick_from (Suc n) ts
      | Some d \<Rightarrow>
          (case pick_from (Suc n) ts of
             None \<Rightarrow> Some (n, d)
           | Some (j, e) \<Rightarrow> if d \<le> e then Some (n, d) else Some (j, e)))"

text \<open>What is left for a task to do, at most: two events per attempt still open.\<close>

fun task_weight :: "nat \<Rightarrow> task \<Rightarrow> nat" where
  "task_weight r Done = 0"
| "task_weight r (AwaitFetch k attempt res due) = 2 * (r - attempt) + 2"
| "task_weight r (AwaitTimer k attempt err due) = 2 * (r - attempt) + 1"

definition batch_weight :: "batch \<Rightarrow> nat" where
  "batch_weight b = sum_list (map (task_weight (retries (b_vault b))) (b_tasks b))"

text \<open>The events are taken in the order in which they are due, until no task waits.\<close>

function run_batch :: "backend \<Rightarrow> options \<Rightarrow> batch \<Rightarrow> batch" where
  "run_batch be opts b =
     (case pick_from 0 (b_tasks b) of
        None \<Rightarrow> b
      | Some (i, due) \<Rightarrow> run_batch be opts (fire be opts i b))"
  by pat_completeness auto
termination
proof (relation "measure (\<lambda>(be, opts, b). batch_weight b)")
  show "wf (measure (\<lambda>(be, opts, b). batch_weight b))" by simp
next
  fix be :: backend and opts :: options and b :: batch and x2 :: "nat \<times> int" and i :: nat and due :: int
  assume "pick_from 0 (b_tasks b) = Some x2" and "(i, due) = x2"
  then have p: "pick_from 0 (b_tasks b) = Some (i, due)" by simp
  have sound: "pick_from n ts = Some (j, d) \<Longrightarrow> n \<le> j \<and> j - n < length ts \<and> due_of (ts ! (j - n)) = Some d"
    for n ts j d
  proof (induction ts arbitrary: n)
    case Nil
    then show ?case by simp
  next
    case (Cons t ts)
    show ?case
    proof (cases "pick_from (Suc n) ts = Some (j, d)")
      case True
      from Cons.IH [OF this] show ?thesis
        by (auto simp: Suc_diff_Suc less_eq_Suc_le)
    next
      case False
      with Cons.prems have "j = n \<and> due_of t = Some d"
        by (auto split: option.splits if_splits)
      then show ?thesis by simp
    qed
  qed
  have less: "j < length ts \<Longrightarrow> task_weight r t < task_weight r (ts ! j) \<Longrightarrow>
      sum_list (map (task_weight r) (ts[j := t])) < sum_list (map (task_weight r) ts)" for j ts r t
  proof (induction ts arbitrary: j)
    case Nil
    then show ?case by simp
  next
    case (Cons a ts)
    then show ?case by (cases j) auto
  qed
  from sound [OF p] have i: "i < length (b_tasks b)" and d: "due_of (b_tasks b ! i) = Some due"
    by simp_all
  let ?r = "retries (b_vault b)"
  have settled: "batch_weight (settle opts i k r b') < batch_weight b"
    if "b_tasks b' = b_tasks b" and "retries (b_vault b') = ?r" for k r b'
  proof -
    have "task_weight ?r Done < task_weight ?r (b_tasks b ! i)"
      using d by (cases "b_tasks b ! i") simp_all
    from less [OF i this] show ?thesis
      using that by (simp add: settle_def batch_weight_def split: prod.splits)
  qed
  have rs: "retries (setCache v t key val) = retries v" for v t key val
    by (simp add: setCache_def)
  have "batch_weight (fire be opts i b) < batch_weight b"
  proof (cases "b_tasks b ! i")
    case Done
    with d show ?thesis by simp
  next
    case (AwaitFetch k attempt res due')
    have upd: "batch_weight (b\<lparr> b_tasks := (b_tasks b)[i := AwaitTimer k attempt err d'], b_world := w' \<rparr>)
        < batch_weight b" for err d' w'
      using less [OF i, of ?r "AwaitTimer k attempt err d'"] AwaitFetch
      by (simp add: batch_weight_def)
    show ?thesis
      using AwaitFetch upd
      by (auto simp: fire_def Let_def rs intro!: settled split: sum.splits)
  next
    case (AwaitTimer k attempt err due')
    have upd: "Suc attempt \<le> ?r \<Longrightarrow>
        batch_weight (b\<lparr> b_tasks := (b_tasks b)[i := AwaitFetch k (Suc attempt) res d'], b_world := w' \<rparr>)
        < batch_weight b" for res d' w'
      using less [OF i, of ?r "AwaitFetch k (Suc attempt) res d'"] AwaitTimer
      by (simp add: batch_weight_def)
    show ?thesis
      using AwaitTimer upd
      by (auto simp: fire_def Let_def issue_fetch_def intro!: settled split: prod.splits)
  qed
  then show "((be, opts, fire be opts i b), (be, opts, b)) \<in> measure (\<lambda>(be, opts, b). batch_weight b)"
    by simp
qed

definition aggregate_message :: "(jsval \<times> string) list \<Rightarrow> string" where
  "aggregate_message errors =
     ''Failed to retrieve secrets: '' @ join '', '' (map (\<lambda>(k, e). to_string k @ '': '' @ e) errors)"

definition getMany ::
  "vault \<Rightarrow> backend \<Rightarrow> jsval \<Rightarrow> options \<Rightarrow> world \<Rightarrow> (thrown + js_object) \<times> vault \<times> world" where
  "getMany v be keys opts w =
     (case keys of
        JArr ks \<Rightarrow>
          (case start_keys v be opts ks w of
             (sts, w1) \<Rightarrow>
               (case record_immediate opts sts (empty_object, []) of
                  (results, errors) \<Rightarrow>
                    (let b = run_batch be opts
                               \<lparr> b_tasks = map task_of sts, b_results = results, b_errors = errors,
                                 b_vault = v, b_world = w1 \<rparr>
                     in if b_errors b \<noteq> [] \<and> failOnMissing opts
                        then (Inl (Thrown (new_Error (aggregate_message (b_errors b)))), b_vault b, b_world b)
                        else (Inr (b_results b), b_vault b, b_world b))))
      | _ \<Rightarrow> (Inl (Thrown (new_Error ''Keys must be an array'')), v, w))"

section \<open>Reference notions and sample data\<close>

text \<open>A retryable response, in the words of the specification: status 429, any 5xx, a
  network-level failure, or a timeout.\<close>

fun spec_retryable :: "fetch_result \<Rightarrow> bool" where
  "spec_retryable (Response st stt body) = (st = 429 \<or> (500 \<le> st \<and> st \<le> 599))"
| "spec_retryable (NetworkFailure msg) = True"
| "spec_retryable Aborted = True"

text \<open>An instance with the constructor's defaults, a world started at some instant, and
  a remote end that gives the same answer to every call, at once.\<close>

definition example_vault :: vault where
  "example_vault =
     \<lparr> apiKey = ''sk-test'', apiUrl = ''https://softovault.com/api/vault'', timeout = 10000,
       retries = 3, cache_enabled = True, cacheTTL = 300000,
       cache = Map.empty, cacheTimestamps = Map.empty \<rparr>"

definition start_world :: world where
  "start_world = \<lparr> now = 1700000000000, events = [] \<rparr>"

definition backend_always :: "fetch_result \<Rightarrow> backend" where
  "backend_always r = (\<lambda>n req. (r, 0))"

text \<open>Options a caller may pass to \<open>_makeRequest\<close>: one extra header.\<close>

definition trace_header_options :: request_options where
  "trace_header_options =
     \<lparr> opt_headers = Some [''X-Trace'' \<mapsto> ''1''], opt_timeout = None, opt_rest = Map.empty \<rparr>"

text \<open>A world whose clock reads 0, and a remote end that holds one secret.\<close>

definition epoch_world :: world where
  "epoch_world = \<lparr> now = 0, events = [] \<rparr>"

definition secret_backend :: backend where
  "secret_backend = backend_always (Response 200 ''OK'' (Inr (JObj [(''value'', JStr ''s3cret'')])))"

text \<open>A remote end that holds the secret at the first call and has lost it afterwards.\<close>

definition first_call_backend :: backend where
  "first_call_backend =
     (\<lambda>n req. if n = 0 then (Response 200 ''OK'' (Inr (JObj [(''value'', JStr ''alpha'')])), 0)
               else (Response 404 ''Not Found'' (Inr (JObj [])), 0))"


text \<open>
  What \<open>get\<close> does once \<open>_makeRequest\<close> has returned or thrown \<open>r\<close> in world \<open>w\<close>:
  the outcome of \<open>get\<close> and the instance it leaves.
\<close>

definition get_finish ::
  "options \<Rightarrow> vault \<Rightarrow> string \<Rightarrow> thrown + jsval \<Rightarrow> world \<Rightarrow> (thrown + jsval) \<times> vault" where
  "get_finish opts v k r w =
     (case r of
        Inr d \<Rightarrow>
          (case get_prop d ''value'' of
             Inr val \<Rightarrow>
               (Inr val, if useCache opts \<noteq> Some False then setCache v (now w) (''secret:'' @ k) val else v)
           | Inl te \<Rightarrow> (Inl (get_catch k (Thrown te)), v))
      | Inl err \<Rightarrow> (Inl (get_catch k err), v))"

text \<open>A remote end that holds the secret \<open>a\<close> and no other.\<close>

definition ab_backend :: backend where
  "ab_backend =
     (\<lambda>n req. if url req = ''https://softovault.com/api/vault/key/a''
               then (Response 200 ''OK'' (Inr (JObj [(''value'', JStr ''alpha'')])), 0)
               else (Response 404 ''Not Found'' (Inr (JObj [])), 0))"

text \<open>The options \<open>{failOnMissing: true}\<close>.\<close>

definition fail_on_missing :: options where
  "fail_on_missing = \<lparr> useCache = None, failOnMissing = True \<rparr>"

section \<open>Facts about the request loop\<close>

declare request_loop.simps [simp del]

lemma calls_of_append: "calls_of (xs @ ys) = calls_of xs @ calls_of ys"
  by (induction xs rule: calls_of.induct) simp_all

lemma do_fetch_events: "events (snd (do_fetch be req w)) = events w @ [Fetch req]"
  by (simp add: do_fetch_def split: prod.splits)

lemma do_fetch_calls: "calls (snd (do_fetch be req w)) = calls w @ [req]"
  by (simp add: calls_def do_fetch_events calls_of_append)

lemma sleep_events: "events (sleep d w) = events w @ [Sleep d]"
  by (simp add: sleep_def)

lemma sleep_calls: "calls (sleep d w) = calls w"
  by (simp add: calls_def sleep_events calls_of_append)

lemma attempt_once_eq:
  "attempt_once be req w = (handle_result (fst (be (length (calls w)) req)), snd (do_fetch be req w))"
  by (simp add: attempt_once_def do_fetch_def split: prod.splits)

lemma loop_success:
  "attempt \<le> retries v \<Longrightarrow> handle_result (fst (be (length (calls w)) req)) = Inr d \<Longrightarrow>
   request_loop v be req attempt le w = (Inr d, snd (do_fetch be req w))"
  by (subst request_loop.simps) (simp add: attempt_once_eq)

lemma loop_terminal:
  "attempt \<le> retries v \<Longrightarrow> handle_result (fst (be (length (calls w)) req)) = Inl e \<Longrightarrow>
   is_client_error e \<Longrightarrow>
   request_loop v be req attempt le w = (Inl (Thrown e), snd (do_fetch be req w))"
  by (subst request_loop.simps) (simp add: attempt_once_eq)

lemma loop_last:
  "handle_result (fst (be (length (calls w)) req)) = Inl e \<Longrightarrow>
   request_loop v be req (retries v) le w = (Inl (Thrown e), snd (do_fetch be req w))"
  by (subst request_loop.simps) (simp add: attempt_once_eq)

lemma loop_retry:
  "attempt < retries v \<Longrightarrow> handle_result (fst (be (length (calls w)) req)) = Inl e \<Longrightarrow>
   \<not> is_client_error e \<Longrightarrow>
   request_loop v be req attempt le w =
     request_loop v be req (Suc attempt) (Thrown e) (sleep (backoff_delay attempt) (snd (do_fetch be req w)))"
  by (subst request_loop.simps) (simp add: attempt_once_eq)

text \<open>When no attempt succeeds or meets a client error, the loop runs from \<open>a\<close> to
  \<open>retries\<close>, sleeps between attempts and throws what the last attempt threw.\<close>

lemma loop_all_retryable:
  assumes R: "\<forall>n. \<exists>e. handle_result (fst (be n req)) = Inl e \<and> \<not> is_client_error e"
  shows "k = retries v - a \<Longrightarrow> a \<le> retries v \<Longrightarrow>
     (\<exists>e. handle_result (fst (be (length (calls w) + k) req)) = Inl e
          \<and> fst (request_loop v be req a le w) = Inl (Thrown e))
     \<and> events (snd (request_loop v be req a le w)) =
         events w @ concat (map (\<lambda>i. [Fetch req, Sleep (backoff_delay i)]) [a..<retries v]) @ [Fetch req]"
proof (induction k arbitrary: a le w)
  case 0
  then have a: "a = retries v" by simp
  from R obtain e where e: "handle_result (fst (be (length (calls w)) req)) = Inl e" by blast
  show ?case unfolding a using e
    by (simp add: loop_last [where be=be and w=w and req=req, OF e] do_fetch_events)
next
  case (Suc k)
  then have lt: "a < retries v" and k: "k = retries v - Suc a" and le': "Suc a \<le> retries v"
    by simp_all
  from R obtain e where e: "handle_result (fst (be (length (calls w)) req)) = Inl e"
    and ne: "\<not> is_client_error e" by blast
  let ?w' = "sleep (backoff_delay a) (snd (do_fetch be req w))"
  have step: "request_loop v be req a le w = request_loop v be req (Suc a) (Thrown e) ?w'"
    by (rule loop_retry [where be=be and w=w and req=req, OF lt e ne])
  have len: "length (calls ?w') = Suc (length (calls w))"
    by (simp add: sleep_calls do_fetch_calls)
  have up: "[a..<retries v] = a # [Suc a..<retries v]"
    using lt by (simp add: upt_conv_Cons)
  from Suc.IH [OF k le', of ?w' "Thrown e"] show ?case
    unfolding step len up
    by (simp add: sleep_events do_fetch_events)
qed

lemma calls_of_retry_events:
  "calls_of (concat (map (\<lambda>i. [Fetch req, Sleep (f i)]) xs)) = replicate (length xs) req"
  by (induction xs) simp_all

lemma makeRequest_all_retryable:
  assumes "\<forall>n. \<exists>e. handle_result (fst (be n (build_request v endpoint opts))) = Inl e \<and> \<not> is_client_error e"
  shows "(\<exists>e. handle_result (fst (be (length (calls w) + retries v) (build_request v endpoint opts))) = Inl e
             \<and> fst (makeRequest v be endpoint opts w) = Inl (Thrown e))
       \<and> events (snd (makeRequest v be endpoint opts w)) =
           events w @ concat (map (\<lambda>attempt. [Fetch (build_request v endpoint opts), Sleep (2 ^ attempt * 1000)])
                                   [0..<retries v])
                    @ [Fetch (build_request v endpoint opts)]
       \<and> length (calls (snd (makeRequest v be endpoint opts w))) = length (calls w) + (retries v + 1)"
proof -
  let ?req = "build_request v endpoint opts"
  have L: "(\<exists>e. handle_result (fst (be (length (calls w) + (retries v - 0)) ?req)) = Inl e
          \<and> fst (request_loop v be ?req 0 ThrownUndefined w) = Inl (Thrown e))
     \<and> events (snd (request_loop v be ?req 0 ThrownUndefined w)) =
         events w @ concat (map (\<lambda>i. [Fetch ?req, Sleep (backoff_delay i)]) [0..<retries v]) @ [Fetch ?req]"
    by (rule loop_all_retryable [where be=be and req="?req", OF assms]) simp_all
  have C: "calls (snd (request_loop v be ?req 0 ThrownUndefined w)) = calls w @ replicate (retries v) ?req @ [?req]"
    using L by (simp add: calls_def calls_of_append calls_of_retry_events)
  show ?thesis
    using L C by (simp add: makeRequest_def backoff_delay_def)
qed

lemma spec_retryable_not_terminal:
  "spec_retryable r \<Longrightarrow> \<exists>e. handle_result r = Inl e \<and> \<not> is_client_error e"
proof (cases r)
  case (Response st stt body)
  assume "spec_retryable r"
  with Response have st: "st = 429 \<or> (500 \<le> st \<and> st \<le> 599)" by simp
  then have nok: "\<not> response_ok st" by (auto simp: response_ok_def)
  show ?thesis
  proof (cases "get_prop (case body of Inl _ \<Rightarrow> JObj [] | Inr d \<Rightarrow> d) ''message''")
    case (Inl te)
    then have "status te = None"
      by (cases "case body of Inl _ \<Rightarrow> JObj [] | Inr d \<Rightarrow> d")
         (auto simp: cannot_read_def new_TypeError_def)
    with Inl Response nok show ?thesis
      by (simp add: handle_result_def is_client_error_def)
  next
    case (Inr m)
    with Response nok st show ?thesis
      by (auto simp: handle_result_def is_client_error_def new_Error_def)
  qed
next
  case (NetworkFailure msg)
  then show ?thesis by (simp add: handle_result_def is_client_error_def new_TypeError_def)
next
  case Aborted
  then show ?thesis by (simp add: handle_result_def is_client_error_def new_AbortError_def)
qed

text \<open>Every run of the loop that starts within the attempt range calls \<open>fetch\<close> at
  least once.\<close>

lemma request_loop_calls:
  "k = retries v - a \<Longrightarrow> a \<le> retries v \<Longrightarrow>
   \<exists>rest. calls (snd (request_loop v be req a le w)) = calls w @ req # rest"
proof (induction k arbitrary: a le w)
  case 0
  then have a: "a = retries v" by simp
  show ?case
  proof (cases "handle_result (fst (be (length (calls w)) req))")
    case (Inl e)
    show ?thesis unfolding a
      by (simp add: loop_last [where be=be and w=w and req=req, OF Inl] do_fetch_calls)
  next
    case (Inr d)
    show ?thesis unfolding a
      by (simp add: loop_success [where be=be and w=w and req=req, OF _ Inr] do_fetch_calls)
  qed
next
  case (Suc k)
  then have lt: "a < retries v" and k: "k = retries v - Suc a" and le': "Suc a \<le> retries v"
    by simp_all
  show ?case
  proof (cases "handle_result (fst (be (length (calls w)) req))")
    case (Inr d)
    show ?thesis
      using lt by (simp add: loop_success [where be=be and w=w and req=req, OF _ Inr] do_fetch_calls)
  next
    case (Inl e)
    show ?thesis
    proof (cases "is_client_error e")
      case True
      show ?thesis
        using lt by (simp add: loop_terminal [where be=be and w=w and req=req, OF _ Inl True] do_fetch_calls)
    next
      case False
      let ?w' = "sleep (backoff_delay a) (snd (do_fetch be req w))"
      have step: "request_loop v be req a le w = request_loop v be req (Suc a) (Thrown e) ?w'"
        by (rule loop_retry [where be=be and w=w and req=req, OF lt Inl False])
      from Suc.IH [OF k le', of "Thrown e" ?w']
      obtain rest where "calls (snd (request_loop v be req (Suc a) (Thrown e) ?w')) = calls ?w' @ req # rest"
        by blast
      then show ?thesis
        unfolding step by (simp add: sleep_calls do_fetch_calls)
    qed
  qed
qed

lemma makeRequest_calls:
  "\<exists>rest. calls (snd (makeRequest v be endpoint opts w)) = calls w @ build_request v endpoint opts # rest"
  unfolding makeRequest_def by (rule request_loop_calls) simp_all

lemma makeRequest_first_success:
  "handle_result (fst (be (length (calls w)) (build_request v endpoint opts))) = Inr d \<Longrightarrow>
   makeRequest v be endpoint opts w = (Inr d, snd (do_fetch be (build_request v endpoint opts) w))"
  unfolding makeRequest_def
  by (rule loop_success [where be=be and w=w]) simp_all

section \<open>Facts about \<open>get\<close>\<close>

lemma get_invalid_key:
  "(\<forall>k. key = JStr k \<longrightarrow> k = []) \<Longrightarrow>
   get v be key opts w = (Inl (Thrown (new_Error ''Secret key must be a non-empty string'')), v, w)"
  by (cases key) (simp_all add: get_def)

lemma get_cached:
  "k \<noteq> [] \<Longrightarrow> useCache opts \<noteq> Some False \<Longrightarrow> isCacheValid v (now w) (''secret:'' @ k) \<Longrightarrow>
   get v be (JStr k) opts w = (Inr (cache_get v (''secret:'' @ k)), v, w)"
  by (simp add: get_def)

lemma get_fetched:
  "k \<noteq> [] \<Longrightarrow> \<not> (useCache opts \<noteq> Some False \<and> isCacheValid v (now w) (''secret:'' @ k)) \<Longrightarrow>
   makeRequest v be (''/key/'' @ encodeURIComponent k) no_options w = (Inr d, w1) \<Longrightarrow>
   get_prop d ''value'' = Inr val \<Longrightarrow>
   get v be (JStr k) opts w =
     (Inr val, (if useCache opts \<noteq> Some False then setCache v (now w1) (''secret:'' @ k) val else v), w1)"
  by (auto simp: get_def)

lemma get_not_found:
  "k \<noteq> [] \<Longrightarrow> \<not> (useCache opts \<noteq> Some False \<and> isCacheValid v (now w) (''secret:'' @ k)) \<Longrightarrow>
   makeRequest v be (''/key/'' @ encodeURIComponent k) no_options w = (Inl (Thrown e), w1) \<Longrightarrow>
   status e = Some 404 \<Longrightarrow>
   get v be (JStr k) opts w = (Inl (Thrown (new_Error (not_found_message k))), v, w1)"
  by (auto simp: get_def get_catch_def)

lemma get_other_error:
  "k \<noteq> [] \<Longrightarrow> \<not> (useCache opts \<noteq> Some False \<and> isCacheValid v (now w) (''secret:'' @ k)) \<Longrightarrow>
   makeRequest v be (''/key/'' @ encodeURIComponent k) no_options w = (Inl (Thrown e), w1) \<Longrightarrow>
   status e \<noteq> Some 404 \<Longrightarrow>
   get v be (JStr k) opts w = (Inl (Thrown e), v, w1)"
  by (auto simp: get_def get_catch_def)

lemma get_failure_keeps_vault:
  "fst (get v be key opts w) = Inl err \<Longrightarrow> fst (snd (get v be key opts w)) = v"
  by (auto simp: get_def Let_def split: jsval.splits prod.splits sum.splits if_splits)

lemma get_never_undefined:
  "fst (get v be key opts w) \<noteq> Inl ThrownUndefined"
  by (auto simp: get_def get_catch_def Let_def
           split: jsval.splits prod.splits sum.splits if_splits thrown.splits)

lemma str_includes_self: "str_includes s s"
  by (cases s) simp_all

lemma str_includes_suffix: "str_includes (p @ s) s"
  by (induction p) (simp_all add: str_includes_self)

lemma not_found_message_includes: "str_includes (not_found_message k) ''not found''"
proof -
  have "not_found_message k = (''Secret with key '' @ [CHR 0x27] @ k @ [CHR 0x27] @ '' '') @ ''not found''"
    by (simp add: not_found_message_def)
  then show ?thesis
    by (simp only: str_includes_suffix)
qed

lemma exists_not_found_message:
  "fst (get v be key default_options w) = Inl (Thrown e) \<Longrightarrow> str_includes (message e) ''not found'' \<Longrightarrow>
   exists v be key w = (Inr False, snd (get v be key default_options w))"
  by (cases "get v be key default_options w") (simp add: exists_def)

lemma encodeURIComponent_missing_key: "encodeURIComponent ''missing-key'' = ''missing-key''"
  by (simp add: encodeURIComponent_def uri_unreserved_def)

lemma example_vault_cache_miss: "\<not> isCacheValid example_vault t key"
  by (simp add: isCacheValid_def example_vault_def)

lemma isCacheValid_iff:
  "isCacheValid v t key \<longleftrightarrow>
     cache_enabled v \<and>
     (\<exists>val ts. cache v key = Some val \<and> cacheTimestamps v key = Some ts \<and> ts \<noteq> 0 \<and> t - ts < cacheTTL v)"
  by (auto simp: isCacheValid_def split: option.splits)

lemma get_success_nonempty: "get v be (JStr k) opts w = (Inr val, v1, w1) \<Longrightarrow> k \<noteq> []"
  by (auto simp: get_def)

lemma get_miss_world:
  "k \<noteq> [] \<Longrightarrow> \<not> (useCache opts \<noteq> Some False \<and> isCacheValid v (now w) (''secret:'' @ k)) \<Longrightarrow>
   snd (snd (get v be (JStr k) opts w)) = snd (makeRequest v be (''/key/'' @ encodeURIComponent k) no_options w)"
  by (auto simp: get_def Let_def split: prod.splits sum.splits)

text \<open>After a successful \<open>get\<close> with the cache in use, the entry of the key holds the
  value returned.\<close>

lemma get_success_entry:
  assumes "cache_enabled v" and "useCache opts \<noteq> Some False"
    and "get v be (JStr k) opts w = (Inr val, v1, w1)"
  shows "cache v1 (''secret:'' @ k) = Some val \<and> (\<exists>ts. cacheTimestamps v1 (''secret:'' @ k) = Some ts)
       \<and> cache_enabled v1 \<and> cacheTTL v1 = cacheTTL v"
proof (cases "isCacheValid v (now w) (''secret:'' @ k)")
  case True
  then obtain x ts where x: "cache v (''secret:'' @ k) = Some x"
    and ts: "cacheTimestamps v (''secret:'' @ k) = Some ts"
    by (auto simp: isCacheValid_iff)
  have k: "k \<noteq> []" using assms(3) by (rule get_success_nonempty)
  have g: "get v be (JStr k) opts w = (Inr (cache_get v (''secret:'' @ k)), v, w)"
    by (rule get_cached [OF k assms(2) True])
  have "(Inr (cache_get v (''secret:'' @ k)) :: thrown + jsval, v, w) = (Inr val, v1, w1)"
    using assms(3) unfolding g .
  then have eq: "cache_get v (''secret:'' @ k) = val" and v1: "v1 = v"
    by blast+
  have "val = x"
    using eq x by (simp add: cache_get_def)
  with x ts assms(1) v1 show ?thesis by simp
next
  case False
  with assms show ?thesis
    by (auto simp: get_def Let_def setCache_def split: prod.splits sum.splits if_splits)
qed

lemma encodeURIComponent_X: "encodeURIComponent ''X'' = ''X''"
  by (simp add: encodeURIComponent_def uri_unreserved_def)

lemma secret_backend_result:
  "handle_result (fst (secret_backend n req)) = Inr (JObj [(''value'', JStr ''s3cret'')])"
  by (simp add: secret_backend_def backend_always_def handle_result_def response_ok_def)

text \<open>A remote end that always answers 500 with a message that contains \<open>not found\<close>:
  \<open>get\<close> throws the error of the last attempt, status 500 included.\<close>

lemma get_500_not_found_message:
  "fst (get example_vault
          (backend_always (Response 500 ''Internal Server Error''
             (Inr (JObj [(''message'', JStr ''upstream not found'')]))))
          (JStr ''X'') default_options start_world)
     = Inl (Thrown \<lparr> name = ''Error'', message = ''upstream not found'', status = Some 500,
                     statusText = Some ''Internal Server Error'',
                     data = Some (JObj [(''message'', JStr ''upstream not found'')]) \<rparr>)"
proof -
  let ?be = "backend_always (Response 500 ''Internal Server Error''
               (Inr (JObj [(''message'', JStr ''upstream not found'')])))"
  let ?e = "\<lparr> name = ''Error'', message = ''upstream not found'', status = Some 500,
             statusText = Some ''Internal Server Error'',
             data = Some (JObj [(''message'', JStr ''upstream not found'')]) \<rparr>"
  let ?mr = "makeRequest example_vault ?be (''/key/'' @ encodeURIComponent ''X'') no_options start_world"
  have hr: "handle_result (Response 500 ''Internal Server Error''
               (Inr (JObj [(''message'', JStr ''upstream not found'')]))) = Inl ?e"
    by (simp add: handle_result_def response_ok_def new_Error_def)
  have h: "\<forall>n. \<exists>e. handle_result (fst (?be n (build_request example_vault
                (''/key/'' @ encodeURIComponent ''X'') no_options))) = Inl e
               \<and> \<not> is_client_error e"
    by (simp add: backend_always_def hr is_client_error_def)
  have "fst ?mr = Inl (Thrown ?e)"
    using makeRequest_all_retryable [where be="?be" and v=example_vault
        and endpoint="''/key/'' @ encodeURIComponent ''X''"
        and opts=no_options and w=start_world, OF h]
    by (simp add: hr backend_always_def)
  then have pair: "?mr = (Inl (Thrown ?e), snd ?mr)"
    by (metis prod.collapse)
  have st: "status ?e \<noteq> Some 404"
    by simp
  have "get example_vault ?be (JStr ''X'') default_options start_world
      = (Inl (Thrown ?e), example_vault, snd ?mr)"
    by (rule get_other_error [OF _ _ pair st]) (simp_all add: example_vault_cache_miss)
  then show ?thesis by simp
qed

lemma encodeURIComponent_proto: "encodeURIComponent ''__proto__'' = ''__proto__''"
  by (simp add: encodeURIComponent_def uri_unreserved_def)

section \<open>Facts about \<open>getMany\<close>\<close>

declare run_batch.simps [simp del]



lemma pick_from_none: "\<forall>t \<in> set ts. t = Done \<Longrightarrow> pick_from n ts = None"
  by (induction ts arbitrary: n) simp_all
















lemma run_all_done: "\<forall>t \<in> set (b_tasks b). t = Done \<Longrightarrow> run_batch be opts b = b"
  by (simp add: run_batch.simps [of be opts b] pick_from_none)













lemma get_miss:
  "k \<noteq> [] \<Longrightarrow> \<not> (useCache opts \<noteq> Some False \<and> isCacheValid v (now w) (''secret:'' @ k)) \<Longrightarrow>
   get v be (JStr k) opts w =
     (case makeRequest v be (''/key/'' @ encodeURIComponent k) no_options w of
        (r, w') \<Rightarrow> (fst (get_finish opts v k r w'), snd (get_finish opts v k r w'), w'))"
  by (auto simp: get_def get_finish_def Let_def split: prod.splits sum.splits)

lemma do_fetch_eq:
  "be (length (calls w)) req = (res, d) \<Longrightarrow>
   do_fetch be req w = (res, w\<lparr> now := now w + int d, events := events w @ [Fetch req] \<rparr>)"
  by (simp add: do_fetch_def)

lemma run_single:
  assumes "n = retries v - a" and "a \<le> retries v"
    and "b_tasks b = [AwaitFetch k a res due]" and "b_vault b = v"
    and "req = build_request v (''/key/'' @ encodeURIComponent k) no_options"
    and "be (length (calls w)) req = (res, d)" and "due = now w + int d"
    and "b_world b = w\<lparr> events := events w @ [Fetch req] \<rparr>"
  shows "run_batch be opts b =
     (case request_loop v be req a le w of
        (r, w') \<Rightarrow>
          (case record_outcome opts (JStr k) (fst (get_finish opts v k r w')) (b_results b, b_errors b) of
             (rs, es) \<Rightarrow>
               \<lparr> b_tasks = [Done], b_results = rs, b_errors = es,
                 b_vault = snd (get_finish opts v k r w'), b_world = w' \<rparr>))"
  using assms
proof (induction n arbitrary: a res due b w d le)
  case 0
  then have a: "a = retries v" by simp
  let ?w1 = "w\<lparr> now := now w + int d, events := events w @ [Fetch req] \<rparr>"
  have df: "do_fetch be req w = (res, ?w1)"
    by (rule do_fetch_eq [where be=be and w=w and req=req, OF "0.prems"(6)])
  have hr: "handle_result (fst (be (length (calls w)) req)) = handle_result res"
    using "0.prems"(6) by simp
  have pick: "pick_from 0 (b_tasks b) = Some (0, due)"
    using "0.prems"(3) by simp
  have stop: "run_batch be opts b' = b'" if "b_tasks b' = [Done]" for b'
    using that by (simp add: run_all_done)
  show ?case
  proof (cases "handle_result res")
    case (Inr dd)
    have loop: "request_loop v be req a le w = (Inr dd, ?w1)"
      using loop_success [where be=be and w=w and req=req, OF "0.prems"(2), of dd le] hr Inr df by simp
    show ?thesis
      unfolding run_batch.simps [of be opts b] pick loop
      using "0.prems"(3,4,7,8) Inr
      by (auto simp: fire_def Let_def settle_def get_finish_def stop split: sum.splits prod.splits)
  next
    case (Inl err)
    have loop: "request_loop v be req a le w = (Inl (Thrown err), ?w1)"
      using loop_last [where be=be and w=w and req=req, of err v le] hr Inl df a by simp
    show ?thesis
      unfolding run_batch.simps [of be opts b] pick loop
      using "0.prems"(3,4,7,8) Inl a
      by (auto simp: fire_def Let_def settle_def get_finish_def stop split: sum.splits prod.splits)
  qed
next
  case (Suc n)
  then have lt: "a < retries v" and n: "n = retries v - Suc a" and le': "Suc a \<le> retries v"
    by simp_all
  let ?w1 = "w\<lparr> now := now w + int d, events := events w @ [Fetch req] \<rparr>"
  have df: "do_fetch be req w = (res, ?w1)"
    by (rule do_fetch_eq [where be=be and w=w and req=req, OF Suc.prems(6)])
  have hr: "handle_result (fst (be (length (calls w)) req)) = handle_result res"
    using Suc.prems(6) by simp
  have pick: "pick_from 0 (b_tasks b) = Some (0, due)"
    using Suc.prems(3) by simp
  have stop: "run_batch be opts b' = b'" if "b_tasks b' = [Done]" for b'
    using that by (simp add: run_all_done)
  show ?case
  proof (cases "handle_result res")
    case (Inr dd)
    have loop: "request_loop v be req a le w = (Inr dd, ?w1)"
      using loop_success [where be=be and w=w and req=req, OF Suc.prems(2), of dd le] hr Inr df by simp
    show ?thesis
      unfolding run_batch.simps [of be opts b] pick loop
      using Suc.prems(3,4,7,8) Inr
      by (auto simp: fire_def Let_def settle_def get_finish_def stop split: sum.splits prod.splits)
  next
    case (Inl err)
    show ?thesis
    proof (cases "is_client_error err")
      case True
      have loop: "request_loop v be req a le w = (Inl (Thrown err), ?w1)"
        using loop_terminal [where be=be and w=w and req=req, OF Suc.prems(2), of err le] hr Inl df True
        by simp
      show ?thesis
        unfolding run_batch.simps [of be opts b] pick loop
        using Suc.prems(3,4,7,8) Inl True
        by (auto simp: fire_def Let_def settle_def get_finish_def stop split: sum.splits prod.splits)
    next
      case False
      let ?w2 = "sleep (backoff_delay a) ?w1"
      have loop: "request_loop v be req a le w = request_loop v be req (Suc a) (Thrown err) ?w2"
        using loop_retry [where be=be and w=w and req=req, OF lt, of err le] hr Inl df False by simp
      obtain res' d' where be': "be (length (calls ?w2)) req = (res', d')"
        by (cases "be (length (calls ?w2)) req") auto
      let ?b1 = "fire be opts 0 b"
      have b1: "?b1 = b\<lparr> b_tasks := [AwaitTimer k a err (now ?w1 + int (backoff_delay a))],
                          b_world := ?w1\<lparr> events := events ?w1 @ [Sleep (backoff_delay a)] \<rparr> \<rparr>"
        using Suc.prems(3,4,7,8) Inl False lt
        by (simp add: fire_def Let_def)
      have pick1: "pick_from 0 (b_tasks ?b1) = Some (0, now ?w1 + int (backoff_delay a))"
        by (simp add: b1)
      let ?b2 = "fire be opts 0 ?b1"
      have b2: "?b2 = b\<lparr> b_tasks := [AwaitFetch k (Suc a) res' (now ?w2 + int d')],
                          b_world := ?w2\<lparr> events := events ?w2 @ [Fetch req] \<rparr> \<rparr>"
        unfolding b1 using Suc.prems(4,5) le' be'
        by (simp add: fire_def Let_def issue_fetch_def sleep_def calls_def)
      have "run_batch be opts b = run_batch be opts ?b2"
        by (simp add: run_batch.simps [of be opts b] pick run_batch.simps [of be opts ?b1] pick1)
      also have "\<dots> =
        (case request_loop v be req (Suc a) (Thrown err) ?w2 of
          (r, w') \<Rightarrow>
            (case record_outcome opts (JStr k) (fst (get_finish opts v k r w')) (b_results ?b2, b_errors ?b2) of
               (rs, es) \<Rightarrow>
                 \<lparr> b_tasks = [Done], b_results = rs, b_errors = es,
                   b_vault = snd (get_finish opts v k r w'), b_world = w' \<rparr>))"
        by (rule Suc.IH [OF n le' _ _ Suc.prems(5) be' refl])
           (simp_all add: b2 Suc.prems(4))
      finally show ?thesis
        by (simp add: loop b2)
    qed
  qed
qed

text \<open>For a single key the batch does what \<open>get\<close> does, and records its outcome.\<close>

lemma getMany_single:
  "getMany v be (JArr [key]) opts w =
     (case get v be key opts w of
        (r, v1, w1) \<Rightarrow>
          (case record_outcome opts key r (empty_object, []) of
             (rs, es) \<Rightarrow>
               if es \<noteq> [] \<and> failOnMissing opts
               then (Inl (Thrown (new_Error (aggregate_message es))), v1, w1)
               else (Inr rs, v1, w1)))"
proof (cases "\<forall>k. key = JStr k \<longrightarrow> k = []")
  case True
  have g: "get v be key opts w
      = (Inl (Thrown (new_Error ''Secret key must be a non-empty string'')), v, w)"
    by (rule get_invalid_key [OF True])
  have sg: "start_get v be opts key w
      = (Inr (Inl (Thrown (new_Error ''Secret key must be a non-empty string''))), w)"
    using True by (cases key) (simp_all add: start_get_def)
  show ?thesis
    by (simp add: getMany_def sg g run_all_done Let_def split: prod.splits)
next
  case False
  then obtain k where key: "key = JStr k" and k: "k \<noteq> []" by auto
  show ?thesis
  proof (cases "useCache opts \<noteq> Some False \<and> isCacheValid v (now w) (''secret:'' @ k)")
    case True
    then have g: "get v be (JStr k) opts w = (Inr (cache_get v (''secret:'' @ k)), v, w)"
      by (simp add: get_cached [OF k])
    have sg: "start_get v be opts (JStr k) w = (Inr (Inr (cache_get v (''secret:'' @ k))), w)"
      using True k by (simp add: start_get_def)
    show ?thesis
      unfolding key by (simp add: getMany_def sg g run_all_done Let_def split: prod.splits)
  next
    case False
    let ?req = "build_request v (''/key/'' @ encodeURIComponent k) no_options"
    obtain res d where be: "be (length (calls w)) ?req = (res, d)"
      by (cases "be (length (calls w)) ?req") auto
    let ?w0 = "w\<lparr> events := events w @ [Fetch ?req] \<rparr>"
    have sg: "start_get v be opts (JStr k) w = (Inl (AwaitFetch k 0 res (now w + int d)), ?w0)"
      using False k be by (auto simp: start_get_def issue_fetch_def Let_def)
    let ?start = "\<lparr> b_tasks = [AwaitFetch k 0 res (now w + int d)], b_results = empty_object,
                   b_errors = [], b_vault = v, b_world = ?w0 \<rparr>"
    have run: "run_batch be opts ?start =
       (case request_loop v be ?req 0 ThrownUndefined w of
          (r, w') \<Rightarrow>
            (case record_outcome opts (JStr k) (fst (get_finish opts v k r w'))
                    (b_results ?start, b_errors ?start) of
               (rs, es) \<Rightarrow>
                 \<lparr> b_tasks = [Done], b_results = rs, b_errors = es,
                   b_vault = snd (get_finish opts v k r w'), b_world = w' \<rparr>))"
      by (rule run_single [where d=d and w=w and be=be and v=v and k=k and a=0 and res=res
            and req="?req" and n="retries v"]) (use be in simp_all)
    have g: "get v be (JStr k) opts w =
       (case request_loop v be ?req 0 ThrownUndefined w of
          (r, w') \<Rightarrow> (fst (get_finish opts v k r w'), snd (get_finish opts v k r w'), w'))"
      using get_miss [OF k False, of be] by (simp add: makeRequest_def)
    have gm: "getMany v be (JArr [JStr k]) opts w =
       (let b = run_batch be opts ?start
        in if b_errors b \<noteq> [] \<and> failOnMissing opts
           then (Inl (Thrown (new_Error (aggregate_message (b_errors b)))), b_vault b, b_world b)
           else (Inr (b_results b), b_vault b, b_world b))"
      by (simp add: getMany_def sg Let_def)
    show ?thesis
      unfolding key gm run g by (simp add: Let_def split: prod.splits)
  qed
qed

lemma encodeURIComponent_a: "encodeURIComponent ''a'' = ''a''"
  by (simp add: encodeURIComponent_def uri_unreserved_def)

lemma getMany_duplicate_keys_example:
  "getMany example_vault first_call_backend (JArr [JStr ''a'', JStr ''a'']) default_options start_world
     = (Inr \<lparr> own_props = [''a'' \<mapsto> JNull], prototype = ProtoObject \<rparr>,
        setCache example_vault 1700000000000 ''secret:a'' (JStr ''alpha''),
        \<lparr> now = 1700000000000,
          events = [Fetch (build_request example_vault ''/key/a'' no_options),
                    Fetch (build_request example_vault ''/key/a'' no_options)] \<rparr>)"
proof -
  let ?req = "build_request example_vault ''/key/a'' no_options"
  let ?ok = "Response 200 ''OK'' (Inr (JObj [(''value'', JStr ''alpha'')]))"
  let ?nf = "Response 404 ''Not Found'' (Inr (JObj []))"
  let ?w1 = "\<lparr> now = 1700000000000, events = [Fetch ?req] \<rparr>"
  let ?w2 = "\<lparr> now = 1700000000000, events = [Fetch ?req, Fetch ?req] \<rparr>"
  have u: "useCache default_options \<noteq> Some False" and f: "\<not> failOnMissing default_options"
    by (simp_all add: default_options_def)
  have s1: "start_get example_vault first_call_backend default_options (JStr ''a'') start_world
      = (Inl (AwaitFetch ''a'' 0 ?ok 1700000000000), ?w1)"
    using u by (simp add: start_get_def example_vault_cache_miss issue_fetch_def encodeURIComponent_a
          first_call_backend_def calls_def start_world_def)
  have s2: "start_get example_vault first_call_backend default_options (JStr ''a'') ?w1
      = (Inl (AwaitFetch ''a'' 0 ?nf 1700000000000), ?w2)"
    using u by (simp add: start_get_def example_vault_cache_miss issue_fetch_def encodeURIComponent_a
          first_call_backend_def calls_def)
  let ?b0 = "\<lparr> b_tasks = [AwaitFetch ''a'' 0 ?ok 1700000000000, AwaitFetch ''a'' 0 ?nf 1700000000000],
               b_results = empty_object, b_errors = [], b_vault = example_vault, b_world = ?w2 \<rparr>"
  let ?v1 = "setCache example_vault 1700000000000 ''secret:a'' (JStr ''alpha'')"
  let ?b1 = "\<lparr> b_tasks = [Done, AwaitFetch ''a'' 0 ?nf 1700000000000],
               b_results = \<lparr> own_props = [''a'' \<mapsto> JStr ''alpha''], prototype = ProtoObject \<rparr>,
               b_errors = [], b_vault = ?v1, b_world = ?w2 \<rparr>"
  let ?b2 = "\<lparr> b_tasks = [Done, Done],
               b_results = \<lparr> own_props = [''a'' \<mapsto> JNull], prototype = ProtoObject \<rparr>,
               b_errors = [], b_vault = ?v1, b_world = ?w2 \<rparr>"
  have f1: "fire first_call_backend default_options 0 ?b0 = ?b1"
    using u f by (simp add: fire_def handle_result_def response_ok_def settle_def record_outcome_def
          assign_property_def empty_object_def)
  have f2: "fire first_call_backend default_options (Suc 0) ?b1 = ?b2"
    using u f by (simp add: fire_def handle_result_def response_ok_def settle_def record_outcome_def
          assign_property_def new_Error_def is_client_error_def get_catch_def)
  have r: "run_batch first_call_backend default_options ?b0 = ?b2"
    by (simp add: run_batch.simps [of _ _ ?b0] run_batch.simps [of _ _ ?b1] run_batch.simps [of _ _ ?b2] f1 f2)
  show ?thesis
    using f by (simp add: getMany_def s1 s2 r)
qed

text \<open>The example of the specification: of the keys \<open>a\<close> and \<open>b\<close> the second is
  missing.\<close>

lemma encodeURIComponent_b: "encodeURIComponent ''b'' = ''b''"
  by (simp add: encodeURIComponent_def uri_unreserved_def)

lemma getMany_example_ab:
  "fst (getMany example_vault ab_backend (JArr [JStr ''a'', JStr ''b'']) default_options start_world)
     = Inr \<lparr> own_props = [''a'' \<mapsto> JStr ''alpha'', ''b'' \<mapsto> JNull], prototype = ProtoObject \<rparr>
   \<and> fst (getMany example_vault ab_backend (JArr [JStr ''a'', JStr ''b'']) fail_on_missing start_world)
     = Inl (Thrown (new_Error ''Failed to retrieve secrets: b: Secret with key 'b' not found''))"
proof -
  let ?ra = "build_request example_vault ''/key/a'' no_options"
  let ?rb = "build_request example_vault ''/key/b'' no_options"
  let ?ok = "Response 200 ''OK'' (Inr (JObj [(''value'', JStr ''alpha'')]))"
  let ?nf = "Response 404 ''Not Found'' (Inr (JObj []))"
  let ?w1 = "\<lparr> now = 1700000000000, events = [Fetch ?ra] \<rparr>"
  let ?w2 = "\<lparr> now = 1700000000000, events = [Fetch ?ra, Fetch ?rb] \<rparr>"
  let ?v1 = "setCache example_vault 1700000000000 ''secret:a'' (JStr ''alpha'')"
  let ?ts0 = "[AwaitFetch ''a'' 0 ?ok 1700000000000, AwaitFetch ''b'' 0 ?nf 1700000000000]"
  let ?ts1 = "[Done, AwaitFetch ''b'' 0 ?nf 1700000000000]"
  let ?ra1 = "\<lparr> own_props = [''a'' \<mapsto> JStr ''alpha''], prototype = ProtoObject \<rparr>"
  have ba: "ab_backend n ?ra = (?ok, 0)" for n
    by (simp add: ab_backend_def build_request_def example_vault_def)
  have bb: "ab_backend n ?rb = (?nf, 0)" for n
    by (simp add: ab_backend_def build_request_def example_vault_def)
  have ia: "issue_fetch example_vault ab_backend ''a'' 0 start_world
      = (AwaitFetch ''a'' 0 ?ok 1700000000000, ?w1)"
    unfolding issue_fetch_def encodeURIComponent_a by (simp add: ba start_world_def)
  have ib: "issue_fetch example_vault ab_backend ''b'' 0 ?w1
      = (AwaitFetch ''b'' 0 ?nf 1700000000000, ?w2)"
    unfolding issue_fetch_def encodeURIComponent_b by (simp add: bb)
  have s1: "start_get example_vault ab_backend opts (JStr ''a'') start_world
      = (Inl (AwaitFetch ''a'' 0 ?ok 1700000000000), ?w1)" if "useCache opts = None" for opts
    using that by (simp add: start_get_def example_vault_cache_miss ia)
  have mb: "\<not> isCacheValid example_vault t key" for t key
    by (simp add: isCacheValid_def example_vault_def)
  have s2: "start_get example_vault ab_backend opts (JStr ''b'') ?w1
      = (Inl (AwaitFetch ''b'' 0 ?nf 1700000000000), ?w2)" if "useCache opts = None" for opts
    using that by (simp add: start_get_def mb ib)
  have run: "run_batch ab_backend opts
        \<lparr> b_tasks = ?ts0, b_results = empty_object, b_errors = [], b_vault = example_vault, b_world = ?w2 \<rparr>
      = (case record_outcome opts (JStr ''b'')
                (Inl (Thrown (new_Error (not_found_message ''b'')))) (?ra1, []) of
           (res, errs) \<Rightarrow> \<lparr> b_tasks = [Done, Done], b_results = res, b_errors = errs,
                              b_vault = ?v1, b_world = ?w2 \<rparr>)"
    if u: "useCache opts = None" for opts
  proof -
    let ?b0 = "\<lparr> b_tasks = ?ts0, b_results = empty_object, b_errors = [], b_vault = example_vault, b_world = ?w2 \<rparr>"
    let ?b1 = "\<lparr> b_tasks = ?ts1, b_results = ?ra1, b_errors = [], b_vault = ?v1, b_world = ?w2 \<rparr>"
    let ?b2 = "(case record_outcome opts (JStr ''b'')
                (Inl (Thrown (new_Error (not_found_message ''b'')))) (?ra1, []) of
           (res, errs) \<Rightarrow> \<lparr> b_tasks = [Done, Done], b_results = res, b_errors = errs,
                              b_vault = ?v1, b_world = ?w2 \<rparr>)"
    have f1: "fire ab_backend opts 0 ?b0 = ?b1"
      using u by (simp add: fire_def handle_result_def response_ok_def settle_def record_outcome_def
          assign_property_def empty_object_def)
    have f2: "fire ab_backend opts (Suc 0) ?b1 = ?b2"
      using u by (simp add: fire_def handle_result_def response_ok_def settle_def
          new_Error_def is_client_error_def get_catch_def split: prod.splits)
    have t2: "b_tasks ?b2 = [Done, Done]"
      by (simp split: prod.splits)
    have "run_batch ab_backend opts ?b0 = run_batch ab_backend opts ?b1"
      by (simp add: run_batch.simps [of _ _ ?b0] f1)
    also have "\<dots> = run_batch ab_backend opts ?b2"
      by (simp add: run_batch.simps [of _ _ ?b1] f2)
    also have "\<dots> = ?b2"
      by (subst run_batch.simps) (simp add: t2)
    finally show ?thesis .
  qed
  have u1: "useCache default_options = None" and f: "\<not> failOnMissing default_options"
    by (simp_all add: default_options_def)
  have u2: "useCache fail_on_missing = None" and f': "failOnMissing fail_on_missing"
    by (simp_all add: fail_on_missing_def)
  have r1: "fst (getMany example_vault ab_backend (JArr [JStr ''a'', JStr ''b'']) default_options start_world)
     = Inr \<lparr> own_props = [''a'' \<mapsto> JStr ''alpha'', ''b'' \<mapsto> JNull], prototype = ProtoObject \<rparr>"
    using f by (simp add: getMany_def s1 [OF u1] s2 [OF u1] run [OF u1] record_outcome_def
        assign_property_def)
  have r2: "fst (getMany example_vault ab_backend (JArr [JStr ''a'', JStr ''b'']) fail_on_missing start_world)
     = Inl (Thrown (new_Error ''Failed to retrieve secrets: b: Secret with key 'b' not found''))"
    using f' by (simp add: getMany_def s1 [OF u2] s2 [OF u2] run [OF u2] record_outcome_def
        aggregate_message_def not_found_message_def new_Error_def)
  from r1 r2 show ?thesis
    by (rule conjI)
qed

section \<open>Claims\<close>

text \<open>
  C3. Whatever \<open>retries\<close> is configured to, against a remote end whose every answer is
  retryable (status 429, a 5xx status, a network failure or a timeout) the executor calls
  \<open>fetch\<close> exactly \<open>retries + 1\<close> times; after each failed attempt but the last it sleeps
  \<open>2 ^ attempt * 1000\<close> (attempts counted from 0), so the events are call, sleep 1000,
  call, sleep 2000, ..., call, with no sleep after the final call; and the error thrown
  is the error of the last attempt.
\<close>

theorem makeRequest_exhausts_retries:
  assumes "\<forall>n. spec_retryable (fst (be n (build_request v endpoint opts)))"
  shows "(\<exists>e. handle_result (fst (be (length (calls w) + retries v) (build_request v endpoint opts))) = Inl e
             \<and> fst (makeRequest v be endpoint opts w) = Inl (Thrown e))
       \<and> events (snd (makeRequest v be endpoint opts w)) =
           events w @ concat (map (\<lambda>attempt. [Fetch (build_request v endpoint opts), Sleep (2 ^ attempt * 1000)])
                                   [0..<retries v])
                    @ [Fetch (build_request v endpoint opts)]
       \<and> length (calls (snd (makeRequest v be endpoint opts w))) = length (calls w) + (retries v + 1)"
proof (rule makeRequest_all_retryable)
  show "\<forall>n. \<exists>e. handle_result (fst (be n (build_request v endpoint opts))) = Inl e \<and> \<not> is_client_error e"
    using assms spec_retryable_not_terminal by blast
qed

theorem makeRequest_exhausts_retries_witness:
  "(\<forall>n. spec_retryable
          (fst (backend_always (Response 500 ''Internal Server Error'' (Inr (JObj [])))
                 n (build_request example_vault ''/info'' no_options))))
   \<and> fst (makeRequest example_vault
             (backend_always (Response 500 ''Internal Server Error'' (Inr (JObj []))))
             ''/info'' no_options start_world)
       = Inl (Thrown \<lparr> name = ''Error'', message = ''HTTP 500: Internal Server Error'',
                       status = Some 500, statusText = Some ''Internal Server Error'',
                       data = Some (JObj []) \<rparr>)
   \<and> events (snd (makeRequest example_vault
             (backend_always (Response 500 ''Internal Server Error'' (Inr (JObj []))))
             ''/info'' no_options start_world))
       = [Fetch (build_request example_vault ''/info'' no_options), Sleep 1000,
          Fetch (build_request example_vault ''/info'' no_options), Sleep 2000,
          Fetch (build_request example_vault ''/info'' no_options), Sleep 4000,
          Fetch (build_request example_vault ''/info'' no_options)]"
proof -
  let ?be = "backend_always (Response 500 ''Internal Server Error'' (Inr (JObj [])))"
  have h: "\<forall>n. spec_retryable (fst (?be n (build_request example_vault ''/info'' no_options)))"
    by (simp add: backend_always_def)
  have r: "retries example_vault = 3"
    by (simp add: example_vault_def)
  have up: "[0..<3] = [0, 1, 2::nat]"
    by (simp add: upt_rec)
  have hr: "handle_result (Response 500 ''Internal Server Error'' (Inr (JObj [])))
      = Inl \<lparr> name = ''Error'', message = ''HTTP 500: Internal Server Error'',
              status = Some 500, statusText = Some ''Internal Server Error'',
              data = Some (JObj []) \<rparr>"
    by (simp add: handle_result_def response_ok_def new_Error_def)
  show ?thesis
    using h makeRequest_exhausts_retries [where be="?be" and v=example_vault and endpoint="''/info''" and opts=no_options and w=start_world, OF h]
    by (simp add: r up hr backend_always_def start_world_def)
qed

subsection \<open>Request headers\<close>

lemma build_request_default_headers:
  "opt_headers opts = None \<Longrightarrow>
   req_headers (build_request v endpoint opts) ''Authorization'' = Some (''Bearer '' @ apiKey v)
   \<and> req_headers (build_request v endpoint opts) ''Content-Type'' = Some ''application/json''
   \<and> req_headers (build_request v endpoint opts) ''User-Agent'' = Some ''SoftoVault-SDK/0.1.0''"
  by (simp add: build_request_def default_headers_def spread_headers_def)

lemma build_request_caller_headers:
  "opt_headers opts = Some h \<Longrightarrow> req_headers (build_request v endpoint opts) = h"
  by (simp add: build_request_def)

text \<open>
  C1. The claim: every request carries the credential header, and headers supplied by
  the caller can never make it absent. The code: \<open>_makeRequest('/info', {headers:
  {'X-Trace': '1'}})\<close> first merges the caller's headers over the three defaults, then
  spreads \<open>options\<close> over the request options, which puts the caller's \<open>headers\<close>
  object in place of the merged one. The request that reaches \<open>fetch\<close> has the caller's
  header and no \<open>Authorization\<close>, \<open>Content-Type\<close> or \<open>User-Agent\<close>.
\<close>

theorem makeRequest_caller_headers_replace_defaults:
  "events (snd (makeRequest example_vault (backend_always (Response 200 ''OK'' (Inr (JObj []))))
                  ''/info'' trace_header_options start_world))
     = [Fetch (build_request example_vault ''/info'' trace_header_options)]
   \<and> req_headers (build_request example_vault ''/info'' trace_header_options) ''X-Trace'' = Some ''1''
   \<and> req_headers (build_request example_vault ''/info'' trace_header_options) ''Authorization'' = None
   \<and> req_headers (build_request example_vault ''/info'' trace_header_options) ''Content-Type'' = None
   \<and> req_headers (build_request example_vault ''/info'' trace_header_options) ''User-Agent'' = None"
proof -
  let ?be = "backend_always (Response 200 ''OK'' (Inr (JObj [])))"
  have "handle_result (fst (?be (length (calls start_world))
            (build_request example_vault ''/info'' trace_header_options))) = Inr (JObj [])"
    by (simp add: backend_always_def handle_result_def response_ok_def)
  then have "makeRequest example_vault ?be ''/info'' trace_header_options start_world
      = (Inr (JObj []), snd (do_fetch ?be (build_request example_vault ''/info'' trace_header_options) start_world))"
    by (rule makeRequest_first_success)
  then have ev: "events (snd (makeRequest example_vault ?be ''/info'' trace_header_options start_world))
      = [Fetch (build_request example_vault ''/info'' trace_header_options)]"
    by (simp add: do_fetch_events start_world_def)
  have h: "req_headers (build_request example_vault ''/info'' trace_header_options) = [''X-Trace'' \<mapsto> ''1'']"
    by (simp add: build_request_caller_headers trace_header_options_def)
  show ?thesis
    unfolding h using ev by simp
qed

subsection \<open>Classification of failures\<close>

lemma handle_result_client_error:
  assumes "400 \<le> st" "st < 500" "st \<noteq> 429" "body \<noteq> Inr JNull" "body \<noteq> Inr JUndefined"
  shows "\<exists>e. handle_result (Response st stt body) = Inl e
             \<and> status e = Some st \<and> statusText e = Some stt
             \<and> data e = Some (case body of Inl _ \<Rightarrow> JObj [] | Inr d \<Rightarrow> d)
             \<and> is_client_error e"
proof -
  have nok: "\<not> response_ok st" using assms by (simp add: response_ok_def)
  obtain m where m: "get_prop (case body of Inl _ \<Rightarrow> JObj [] | Inr d \<Rightarrow> d) ''message'' = Inr m"
    using assms(4,5) by (cases body; cases "projr body") auto
  show ?thesis
    using assms(1-3) nok m by (simp add: handle_result_def is_client_error_def new_Error_def)
qed

text \<open>A client error other than 429, with a body that is not the JSON \<open>null\<close>, ends
  the loop at the attempt that meets it.\<close>

lemma client_error_is_terminal:
  assumes "attempt \<le> retries v"
    and "fst (be (length (calls w)) req) = Response st stt body"
    and "400 \<le> st" "st < 500" "st \<noteq> 429" "body \<noteq> Inr JNull" "body \<noteq> Inr JUndefined"
  shows "\<exists>e. request_loop v be req attempt le w = (Inl (Thrown e), snd (do_fetch be req w))
             \<and> status e = Some st \<and> statusText e = Some stt
             \<and> data e = Some (case body of Inl _ \<Rightarrow> JObj [] | Inr d \<Rightarrow> d)"
proof -
  from handle_result_client_error [OF assms(3-7), of stt]
  obtain e where e: "handle_result (Response st stt body) = Inl e"
    and f: "status e = Some st" "statusText e = Some stt"
       "data e = Some (case body of Inl _ \<Rightarrow> JObj [] | Inr d \<Rightarrow> d)"
    and c: "is_client_error e" by blast
  have "handle_result (fst (be (length (calls w)) req)) = Inl e"
    using e assms(2) by simp
  from loop_terminal [where be=be and w=w and req=req, OF assms(1) this c, of le] f
  show ?thesis by blast
qed

text \<open>
  C2. The claim: every status in [400,500) other than 429 is terminal, so a remote end
  that answers 400 is called once. The code: when the body of the 400 answer is the
  JSON value \<open>null\<close>, reading \<open>errorData.message\<close> throws a TypeError inside the
  \<open>try\<close> block before the error with the status is built; the TypeError has no
  status, the \<open>catch\<close> block does not take it for a client error, and the request is
  tried \<open>retries + 1\<close> times with the backoff delays in between.
\<close>

theorem makeRequest_400_null_body_is_retried:
  "fst (makeRequest example_vault (backend_always (Response 400 ''Bad Request'' (Inr JNull)))
           ''/info'' no_options start_world)
     = Inl (Thrown (new_TypeError ''Cannot read properties of null (reading 'message')''))
   \<and> events (snd (makeRequest example_vault (backend_always (Response 400 ''Bad Request'' (Inr JNull)))
           ''/info'' no_options start_world))
     = [Fetch (build_request example_vault ''/info'' no_options), Sleep 1000,
        Fetch (build_request example_vault ''/info'' no_options), Sleep 2000,
        Fetch (build_request example_vault ''/info'' no_options), Sleep 4000,
        Fetch (build_request example_vault ''/info'' no_options)]"
proof -
  let ?be = "backend_always (Response 400 ''Bad Request'' (Inr JNull))"
  have hr: "handle_result (Response 400 ''Bad Request'' (Inr JNull))
      = Inl (new_TypeError ''Cannot read properties of null (reading 'message')'')"
    by (simp add: handle_result_def response_ok_def cannot_read_def)
  have h: "\<forall>n. \<exists>e. handle_result (fst (?be n (build_request example_vault ''/info'' no_options))) = Inl e
               \<and> \<not> is_client_error e"
    by (simp add: backend_always_def hr is_client_error_def new_TypeError_def)
  have r: "retries example_vault = 3"
    by (simp add: example_vault_def)
  have up: "[0..<3] = [0, 1, 2::nat]"
    by (simp add: upt_rec)
  show ?thesis
    using makeRequest_all_retryable [where be="?be" and v=example_vault and endpoint="''/info''"
        and opts=no_options and w=start_world, OF h]
    by (simp add: r up hr backend_always_def start_world_def)
qed

text \<open>
  C7, as stated: a 2xx response whose body is not valid JSON is a terminal failure and
  the request is not tried again. It fails: against a remote end that always answers 200
  with a body that does not parse, the default instance calls \<open>fetch\<close> four times and
  sleeps in between.
\<close>

theorem malformed_success_body_counterexample:
  "events (snd (makeRequest example_vault
                  (backend_always (Response 200 ''OK'' (Inl ''Unexpected end of JSON input'')))
                  ''/info'' no_options start_world))
     = [Fetch (build_request example_vault ''/info'' no_options), Sleep 1000,
        Fetch (build_request example_vault ''/info'' no_options), Sleep 2000,
        Fetch (build_request example_vault ''/info'' no_options), Sleep 4000,
        Fetch (build_request example_vault ''/info'' no_options)]
   \<and> events (snd (makeRequest example_vault
                  (backend_always (Response 200 ''OK'' (Inl ''Unexpected end of JSON input'')))
                  ''/info'' no_options start_world))
     \<noteq> [Fetch (build_request example_vault ''/info'' no_options)]"
proof -
  let ?be = "backend_always (Response 200 ''OK'' (Inl ''Unexpected end of JSON input''))"
  have hr: "handle_result (Response 200 ''OK'' (Inl ''Unexpected end of JSON input''))
      = Inl (new_SyntaxError ''Unexpected end of JSON input'')"
    by (simp add: handle_result_def response_ok_def)
  have h: "\<forall>n. \<exists>e. handle_result (fst (?be n (build_request example_vault ''/info'' no_options))) = Inl e
               \<and> \<not> is_client_error e"
    by (simp add: backend_always_def hr is_client_error_def new_SyntaxError_def)
  have r: "retries example_vault = 3"
    by (simp add: example_vault_def)
  have up: "[0..<3] = [0, 1, 2::nat]"
    by (simp add: upt_rec)
  show ?thesis
    using makeRequest_all_retryable [where be="?be" and v=example_vault and endpoint="''/info''"
        and opts=no_options and w=start_world, OF h]
    by (simp add: r up start_world_def)
qed

text \<open>
  C7, amended: a 2xx response whose body is not valid JSON makes the attempt throw the
  parser's SyntaxError, which carries no status, status text or body and so differs
  from an HTTP-status failure; the executor does not take it for a client error and
  handles it as it handles a network failure: on the last attempt it is thrown, on any
  earlier attempt the executor sleeps \<open>2 ^ attempt * 1000\<close> and tries again.
\<close>

theorem malformed_success_body_is_retried:
  assumes "response_ok st"
    and "fst (be (length (calls w)) req) = Response st stt (Inl msg)"
    and "attempt \<le> retries v"
  shows "handle_result (Response st stt (Inl msg)) = Inl (new_SyntaxError msg)
       \<and> status (new_SyntaxError msg) = None
       \<and> statusText (new_SyntaxError msg) = None
       \<and> data (new_SyntaxError msg) = None
       \<and> \<not> is_client_error (new_SyntaxError msg)
       \<and> request_loop v be req attempt le w =
           (if attempt = retries v
            then (Inl (Thrown (new_SyntaxError msg)), snd (do_fetch be req w))
            else request_loop v be req (Suc attempt) (Thrown (new_SyntaxError msg))
                   (sleep (2 ^ attempt * 1000) (snd (do_fetch be req w))))"
proof -
  have hr: "handle_result (Response st stt (Inl msg)) = Inl (new_SyntaxError msg)"
    using assms(1) by (simp add: handle_result_def)
  then have hr': "handle_result (fst (be (length (calls w)) req)) = Inl (new_SyntaxError msg)"
    using assms(2) by simp
  have nc: "\<not> is_client_error (new_SyntaxError msg)"
    by (simp add: is_client_error_def new_SyntaxError_def)
  have loop: "request_loop v be req attempt le w =
           (if attempt = retries v
            then (Inl (Thrown (new_SyntaxError msg)), snd (do_fetch be req w))
            else request_loop v be req (Suc attempt) (Thrown (new_SyntaxError msg))
                   (sleep (2 ^ attempt * 1000) (snd (do_fetch be req w))))"
  proof (cases "attempt = retries v")
    case True
    then show ?thesis
      using loop_last [where be=be and w=w and req=req, OF hr', of v le] by simp
  next
    case False
    with assms(3) have "attempt < retries v" by simp
    from loop_retry [where be=be and w=w and req=req, OF this hr' nc, of le] False
    show ?thesis by (simp add: backoff_delay_def)
  qed
  show ?thesis
    using hr nc loop by (simp add: new_SyntaxError_def)
qed

theorem malformed_success_body_is_retried_witness:
  "response_ok 200
   \<and> fst (backend_always (Response 200 ''OK'' (Inl ''Unexpected end of JSON input''))
            (length (calls start_world)) (build_request example_vault ''/info'' no_options))
       = Response 200 ''OK'' (Inl ''Unexpected end of JSON input'')
   \<and> 0 \<le> retries example_vault
   \<and> request_loop example_vault
        (backend_always (Response 200 ''OK'' (Inl ''Unexpected end of JSON input'')))
        (build_request example_vault ''/info'' no_options) 0 ThrownUndefined start_world
     = request_loop example_vault
        (backend_always (Response 200 ''OK'' (Inl ''Unexpected end of JSON input'')))
        (build_request example_vault ''/info'' no_options) (Suc 0)
        (Thrown (new_SyntaxError ''Unexpected end of JSON input''))
        (sleep 1000 (snd (do_fetch
            (backend_always (Response 200 ''OK'' (Inl ''Unexpected end of JSON input'')))
            (build_request example_vault ''/info'' no_options) start_world)))"
proof -
  let ?be = "backend_always (Response 200 ''OK'' (Inl ''Unexpected end of JSON input''))"
  let ?req = "build_request example_vault ''/info'' no_options"
  have h1: "response_ok 200"
    by (simp add: response_ok_def)
  have h2: "fst (?be (length (calls start_world)) ?req)
      = Response 200 ''OK'' (Inl ''Unexpected end of JSON input'')"
    by (simp add: backend_always_def)
  have h3: "0 \<le> retries example_vault"
    by simp
  have r: "retries example_vault = 3"
    by (simp add: example_vault_def)
  show ?thesis
    using h1 h2 malformed_success_body_is_retried [where be="?be" and w=start_world and req="?req",
        OF h1 h2 h3, of ThrownUndefined]
    by (simp add: r)
qed

subsection \<open>Cache validity\<close>

text \<open>For an entry whose stored timestamp is not 0 the rule is the one claimed: valid
  iff \<open>now - storedAt < ttl\<close>, so invalid at \<open>now - storedAt = ttl\<close>; an absent entry
  is not valid; a put replaces value and timestamp.\<close>

lemma cache_validity_nonzero_timestamp:
  "cache_enabled v \<Longrightarrow> cache v key = Some val \<Longrightarrow> cacheTimestamps v key = Some ts \<Longrightarrow> ts \<noteq> 0 \<Longrightarrow>
   isCacheValid v t key \<longleftrightarrow> t - ts < cacheTTL v"
  by (simp add: isCacheValid_def)

lemma cache_absent_invalid: "cache v key = None \<Longrightarrow> \<not> isCacheValid v t key"
  by (simp add: isCacheValid_def)

lemma setCache_overwrites:
  "cache_enabled v \<Longrightarrow>
   cache (setCache v t key val) key = Some val \<and> cacheTimestamps (setCache v t key val) key = Some t"
  by (simp add: setCache_def)

text \<open>
  C4. The claim: a lookup reports an entry valid iff the entry is present and
  \<open>now - storedAt < ttl\<close>. The code: \<open>_isCacheValid\<close> returns
  \<open>timestamp && (Date.now() - timestamp) < cacheTTL\<close>; the test \<open>timestamp &&\<close>, there
  for a missing timestamp, is falsy for a timestamp that is present and 0. An entry put
  into the cache at clock reading 0 is present, 5 time units later it is well within the
  TTL of 300000, and the lookup reports it invalid.
\<close>

theorem cache_entry_stored_at_zero_is_reported_invalid:
  "cache (setCache example_vault 0 ''secret:X'' (JStr ''s'')) ''secret:X'' = Some (JStr ''s'')
   \<and> cacheTimestamps (setCache example_vault 0 ''secret:X'' (JStr ''s'')) ''secret:X'' = Some 0
   \<and> (5::int) - 0 < cacheTTL (setCache example_vault 0 ''secret:X'' (JStr ''s''))
   \<and> \<not> isCacheValid (setCache example_vault 0 ''secret:X'' (JStr ''s'')) 5 ''secret:X''"
  by (simp add: setCache_def example_vault_def isCacheValid_def)

text \<open>At that input the guard of line 108 does not fire: caching is enabled and the
  entry is in the map. The verdict comes from line 111.\<close>

theorem cache_entry_stored_at_zero_is_reported_invalid_witness:
  "cache_enabled (setCache example_vault 0 ''secret:X'' (JStr ''s''))
   \<and> cache (setCache example_vault 0 ''secret:X'' (JStr ''s'')) ''secret:X'' \<noteq> None
   \<and> cacheTimestamps (setCache example_vault 0 ''secret:X'' (JStr ''s'')) ''secret:X'' = Some 0
   \<and> \<not> isCacheValid (setCache example_vault 0 ''secret:X'' (JStr ''s'')) 5 ''secret:X''"
  using cache_entry_stored_at_zero_is_reported_invalid
  by (simp add: setCache_def example_vault_def)

subsection \<open>\<open>get\<close> and \<open>exists\<close>\<close>

text \<open>
  C6. The claim: when the remote end answers 404, \<open>get\<close> raises a NotFound error that
  names the key. The code: when the 404 answer has the JSON body \<open>null\<close>, reading
  \<open>errorData.message\<close> throws a TypeError before the error with status 404 is built;
  the request is retried to exhaustion (four calls with the default configuration) and
  \<open>get\<close> throws the TypeError on, since it has no status to compare with 404.
\<close>

theorem get_404_null_body_is_not_NotFound:
  "fst (get example_vault (backend_always (Response 404 ''Not Found'' (Inr JNull)))
          (JStr ''missing-key'') default_options start_world)
     = Inl (Thrown (new_TypeError ''Cannot read properties of null (reading 'message')''))
   \<and> events (snd (snd (get example_vault (backend_always (Response 404 ''Not Found'' (Inr JNull)))
          (JStr ''missing-key'') default_options start_world)))
     = [Fetch (build_request example_vault ''/key/missing-key'' no_options), Sleep 1000,
        Fetch (build_request example_vault ''/key/missing-key'' no_options), Sleep 2000,
        Fetch (build_request example_vault ''/key/missing-key'' no_options), Sleep 4000,
        Fetch (build_request example_vault ''/key/missing-key'' no_options)]"
proof -
  let ?be = "backend_always (Response 404 ''Not Found'' (Inr JNull))"
  let ?te = "new_TypeError ''Cannot read properties of null (reading 'message')''"
  let ?mr = "makeRequest example_vault ?be (''/key/'' @ encodeURIComponent ''missing-key'') no_options start_world"
  have hr: "handle_result (Response 404 ''Not Found'' (Inr JNull)) = Inl ?te"
    by (simp add: handle_result_def response_ok_def cannot_read_def)
  have h: "\<forall>n. \<exists>e. handle_result (fst (?be n (build_request example_vault
                (''/key/'' @ encodeURIComponent ''missing-key'') no_options))) = Inl e
               \<and> \<not> is_client_error e"
    by (simp add: backend_always_def hr is_client_error_def new_TypeError_def)
  have r: "retries example_vault = 3"
    by (simp add: example_vault_def)
  have up: "[0..<3] = [0, 1, 2::nat]"
    by (simp add: upt_rec)
  have mr: "fst ?mr = Inl (Thrown ?te)
      \<and> events (snd ?mr)
        = [Fetch (build_request example_vault ''/key/missing-key'' no_options), Sleep 1000,
           Fetch (build_request example_vault ''/key/missing-key'' no_options), Sleep 2000,
           Fetch (build_request example_vault ''/key/missing-key'' no_options), Sleep 4000,
           Fetch (build_request example_vault ''/key/missing-key'' no_options)]"
    using makeRequest_all_retryable [where be="?be" and v=example_vault
        and endpoint="''/key/'' @ encodeURIComponent ''missing-key''"
        and opts=no_options and w=start_world, OF h]
    by (simp add: r up hr backend_always_def start_world_def encodeURIComponent_missing_key)
  then have pair: "?mr = (Inl (Thrown ?te), snd ?mr)"
    by (metis prod.collapse)
  have st: "status ?te \<noteq> Some 404"
    by (simp add: new_TypeError_def)
  have "get example_vault ?be (JStr ''missing-key'') default_options start_world
      = (Inl (Thrown ?te), example_vault, snd ?mr)"
    by (rule get_other_error [OF _ _ pair st]) (simp_all add: example_vault_cache_miss)
  with mr show ?thesis by simp
qed

text \<open>
  C10. For every key, when the request made by \<open>get\<close> ends in an error with status
  404, \<open>get\<close> throws a fresh \<open>Error\<close> whose only content is the message
  \<open>Secret with key '<key>' not found\<close>: it has no status, no status text and no
  body, so a caller can tell it only by its message. \<open>exists\<close> does so: it returns
  false for this error, and for any error thrown by \<open>get\<close> whose message contains
  \<open>not found\<close>, whatever status that error has.
\<close>

theorem not_found_error_is_plain:
  assumes "k \<noteq> []"
    and "\<not> (useCache opts \<noteq> Some False \<and> isCacheValid v (now w) (''secret:'' @ k))"
    and "makeRequest v be (''/key/'' @ encodeURIComponent k) no_options w = (Inl (Thrown e), w1)"
    and "status e = Some 404"
  shows "get v be (JStr k) opts w =
           (Inl (Thrown \<lparr> name = ''Error'',
                           message = ''Secret with key '' @ [CHR 0x27] @ k @ [CHR 0x27] @ '' not found'',
                           status = None, statusText = None, data = None \<rparr>), v, w1)
       \<and> (opts = default_options \<longrightarrow> exists v be (JStr k) w = (Inr False, v, w1))
       \<and> (\<forall>v' be' key' w' e'.
             fst (get v' be' key' default_options w') = Inl (Thrown e')
             \<and> str_includes (message e') ''not found''
             \<longrightarrow> fst (exists v' be' key' w') = Inr False)"
proof -
  have g: "get v be (JStr k) opts w = (Inl (Thrown (new_Error (not_found_message k))), v, w1)"
    by (rule get_not_found [OF assms])
  have m: "message (new_Error (not_found_message k)) = not_found_message k"
    by (simp add: new_Error_def)
  have ex: "opts = default_options \<longrightarrow> exists v be (JStr k) w = (Inr False, v, w1)"
  proof
    assume o: "opts = default_options"
    have "fst (get v be (JStr k) default_options w) = Inl (Thrown (new_Error (not_found_message k)))"
      using g o by simp
    from exists_not_found_message [OF this] show "exists v be (JStr k) w = (Inr False, v, w1)"
      using g o by (simp add: m not_found_message_includes)
  qed
  have all: "\<forall>v' be' key' w' e'.
             fst (get v' be' key' default_options w') = Inl (Thrown e')
             \<and> str_includes (message e') ''not found''
             \<longrightarrow> fst (exists v' be' key' w') = Inr False"
    by (auto simp: exists_not_found_message)
  show ?thesis
    using g ex all by (simp add: new_Error_def not_found_message_def)
qed

theorem not_found_error_is_plain_witness:
  "''missing-key'' \<noteq> []
   \<and> \<not> (useCache default_options \<noteq> Some False
         \<and> isCacheValid example_vault (now start_world) (''secret:'' @ ''missing-key''))
   \<and> fst (makeRequest example_vault
            (backend_always (Response 404 ''Not Found'' (Inr (JObj [(''message'', JStr ''no such secret'')]))))
            (''/key/'' @ encodeURIComponent ''missing-key'') no_options start_world)
       = Inl (Thrown \<lparr> name = ''Error'', message = ''no such secret'', status = Some 404,
                       statusText = Some ''Not Found'',
                       data = Some (JObj [(''message'', JStr ''no such secret'')]) \<rparr>)
   \<and> fst (get example_vault
            (backend_always (Response 404 ''Not Found'' (Inr (JObj [(''message'', JStr ''no such secret'')]))))
            (JStr ''missing-key'') default_options start_world)
       = Inl (Thrown \<lparr> name = ''Error'', message = ''Secret with key 'missing-key' not found'',
                       status = None, statusText = None, data = None \<rparr>)
   \<and> fst (exists example_vault
            (backend_always (Response 404 ''Not Found'' (Inr (JObj [(''message'', JStr ''no such secret'')]))))
            (JStr ''missing-key'') start_world)
       = Inr False
   \<and> fst (get example_vault
            (backend_always (Response 500 ''Internal Server Error''
               (Inr (JObj [(''message'', JStr ''upstream not found'')]))))
            (JStr ''X'') default_options start_world)
       = Inl (Thrown \<lparr> name = ''Error'', message = ''upstream not found'', status = Some 500,
                       statusText = Some ''Internal Server Error'',
                       data = Some (JObj [(''message'', JStr ''upstream not found'')]) \<rparr>)
   \<and> str_includes ''upstream not found'' ''not found''
   \<and> fst (exists example_vault
            (backend_always (Response 500 ''Internal Server Error''
               (Inr (JObj [(''message'', JStr ''upstream not found'')]))))
            (JStr ''X'') start_world)
       = Inr False"
proof -
  let ?be = "backend_always (Response 404 ''Not Found'' (Inr (JObj [(''message'', JStr ''no such secret'')])))"
  let ?e = "\<lparr> name = ''Error'', message = ''no such secret'', status = Some 404,
             statusText = Some ''Not Found'',
             data = Some (JObj [(''message'', JStr ''no such secret'')]) \<rparr>"
  let ?req = "build_request example_vault (''/key/'' @ encodeURIComponent ''missing-key'') no_options"
  let ?w1 = "snd (do_fetch ?be ?req start_world)"
  have h1: "''missing-key'' \<noteq> []" by simp
  have h2: "\<not> (useCache default_options \<noteq> Some False
         \<and> isCacheValid example_vault (now start_world) (''secret:'' @ ''missing-key''))"
    by (simp add: example_vault_cache_miss)
  have hr: "handle_result (fst (?be (length (calls start_world)) ?req)) = Inl ?e"
    by (simp add: backend_always_def handle_result_def response_ok_def new_Error_def)
  have ce: "is_client_error ?e"
    by (simp add: is_client_error_def)
  have h3: "makeRequest example_vault ?be (''/key/'' @ encodeURIComponent ''missing-key'') no_options start_world
      = (Inl (Thrown ?e), ?w1)"
    unfolding makeRequest_def
    by (rule loop_terminal [where be="?be" and w=start_world, OF _ hr ce]) simp
  have h4: "status ?e = Some 404" by simp
  let ?be5 = "backend_always (Response 500 ''Internal Server Error''
               (Inr (JObj [(''message'', JStr ''upstream not found'')])))"
  let ?e5 = "\<lparr> name = ''Error'', message = ''upstream not found'', status = Some 500,
             statusText = Some ''Internal Server Error'',
             data = Some (JObj [(''message'', JStr ''upstream not found'')]) \<rparr>"
  have g5: "fst (get example_vault ?be5 (JStr ''X'') default_options start_world) = Inl (Thrown ?e5)"
    by (rule get_500_not_found_message)
  have inc: "str_includes ''upstream not found'' ''not found''"
    by simp
  have inc': "str_includes (message ?e5) ''not found''"
    using inc by simp
  from not_found_error_is_plain [OF h1 h2 h3 h4]
  have main: "get example_vault ?be (JStr ''missing-key'') default_options start_world =
           (Inl (Thrown \<lparr> name = ''Error'',
                           message = ''Secret with key '' @ [CHR 0x27] @ ''missing-key'' @ [CHR 0x27] @ '' not found'',
                           status = None, statusText = None, data = None \<rparr>), example_vault, ?w1)"
    and ex: "exists example_vault ?be (JStr ''missing-key'') start_world = (Inr False, example_vault, ?w1)"
    and all: "\<forall>v' be' key' w' e'.
             fst (get v' be' key' default_options w') = Inl (Thrown e')
             \<and> str_includes (message e') ''not found''
             \<longrightarrow> fst (exists v' be' key' w') = Inr False"
    by simp_all
  from all g5 inc' have ex5: "fst (exists example_vault ?be5 (JStr ''X'') start_world) = Inr False"
    by blast
  show ?thesis
    using h1 h2 h3 main ex g5 inc ex5 by simp
qed

subsection \<open>Cache round trip\<close>

text \<open>
  On a cache-enabled instance, after a successful \<open>get(X)\<close> the cache holds the value
  returned under \<open>secret:X\<close>; a second \<open>get(X)\<close> issued while the stored timestamp
  is not 0 and \<open>now - storedAt < TTL\<close> makes no network call (the world is left as it
  was) and returns the identical value; \<open>clearCache()\<close> removes every entry, and the
  next \<open>get(X)\<close> calls \<open>fetch\<close> anew.
\<close>

lemma cache_round_trip_nonzero_timestamp:
  assumes "cache_enabled v"
    and "get v be (JStr k) default_options w = (Inr val, v1, w1)"
  shows "\<exists>ts. cache v1 (''secret:'' @ k) = Some val
            \<and> cacheTimestamps v1 (''secret:'' @ k) = Some ts
            \<and> (\<forall>be2 w2. ts \<noteq> 0 \<and> now w2 - ts < cacheTTL v1 \<longrightarrow>
                  get v1 be2 (JStr k) default_options w2 = (Inr val, v1, w2))
            \<and> cache (clearCache v1) = Map.empty
            \<and> cacheTimestamps (clearCache v1) = Map.empty
            \<and> (\<forall>be3 w3. length (calls w3)
                   < length (calls (snd (snd (get (clearCache v1) be3 (JStr k) default_options w3)))))"
proof -
  have use: "useCache default_options \<noteq> Some False"
    by (simp add: default_options_def)
  have k: "k \<noteq> []"
    using assms(2) by (rule get_success_nonempty)
  from get_success_entry [OF assms(1) use assms(2)]
  obtain ts where c: "cache v1 (''secret:'' @ k) = Some val"
    and ts: "cacheTimestamps v1 (''secret:'' @ k) = Some ts"
    and en: "cache_enabled v1" by blast
  have hit: "get v1 be2 (JStr k) default_options w2 = (Inr val, v1, w2)"
    if "ts \<noteq> 0 \<and> now w2 - ts < cacheTTL v1" for be2 w2
  proof -
    have "isCacheValid v1 (now w2) (''secret:'' @ k)"
      unfolding isCacheValid_iff using that c ts en by blast
    moreover have "cache_get v1 (''secret:'' @ k) = val"
      using c by (simp add: cache_get_def)
    ultimately show ?thesis
      using get_cached [OF k use, of v1 w2 be2] by simp
  qed
  have cl: "cache (clearCache v1) = Map.empty" "cacheTimestamps (clearCache v1) = Map.empty"
    using en by (simp_all add: clearCache_def)
  have again: "length (calls w3)
      < length (calls (snd (snd (get (clearCache v1) be3 (JStr k) default_options w3))))" for be3 w3
  proof -
    have miss: "\<not> (useCache default_options \<noteq> Some False
        \<and> isCacheValid (clearCache v1) (now w3) (''secret:'' @ k))"
      unfolding isCacheValid_iff using cl by simp
    have "snd (snd (get (clearCache v1) be3 (JStr k) default_options w3))
        = snd (makeRequest (clearCache v1) be3 (''/key/'' @ encodeURIComponent k) no_options w3)"
      by (rule get_miss_world [OF k miss])
    moreover obtain rest where
      "calls (snd (makeRequest (clearCache v1) be3 (''/key/'' @ encodeURIComponent k) no_options w3))
         = calls w3 @ build_request (clearCache v1) (''/key/'' @ encodeURIComponent k) no_options # rest"
      using makeRequest_calls by blast
    ultimately show ?thesis by simp
  qed
  from c ts hit cl again show ?thesis by blast
qed

text \<open>
  C9. The claim: after a successful \<open>get(X)\<close> on a cache-enabled instance, a second
  \<open>get(X)\<close> within the TTL makes no network call. The code: when the first
  \<open>get\<close> stores its value at clock reading 0, the test \<open>timestamp &&\<close> of
  \<open>_isCacheValid\<close> takes the stored timestamp for a missing one, and the second
  \<open>get\<close>, 5 time units later with a TTL of 300000, calls \<open>fetch\<close> again.
\<close>

theorem second_get_refetches_value_stored_at_zero:
  "get example_vault secret_backend (JStr ''X'') default_options epoch_world
     = (Inr (JStr ''s3cret''),
        setCache example_vault 0 ''secret:X'' (JStr ''s3cret''),
        \<lparr> now = 0, events = [Fetch (build_request example_vault ''/key/X'' no_options)] \<rparr>)
   \<and> (5::int) - 0 < cacheTTL (setCache example_vault 0 ''secret:X'' (JStr ''s3cret''))
   \<and> events (snd (snd (get (setCache example_vault 0 ''secret:X'' (JStr ''s3cret'')) secret_backend
                          (JStr ''X'') default_options
                          \<lparr> now = 5, events = [Fetch (build_request example_vault ''/key/X'' no_options)] \<rparr>)))
       = [Fetch (build_request example_vault ''/key/X'' no_options),
          Fetch (build_request (setCache example_vault 0 ''secret:X'' (JStr ''s3cret'')) ''/key/X'' no_options)]"
proof -
  let ?v1 = "setCache example_vault 0 ''secret:X'' (JStr ''s3cret'')"
  let ?req = "build_request example_vault ''/key/X'' no_options"
  let ?w1 = "\<lparr> now = 0, events = [Fetch ?req] \<rparr>"
  let ?w2 = "\<lparr> now = 5, events = [Fetch ?req] \<rparr>"
  have m1: "makeRequest example_vault secret_backend (''/key/'' @ encodeURIComponent ''X'') no_options epoch_world
      = (Inr (JObj [(''value'', JStr ''s3cret'')]), ?w1)"
    by (simp add: makeRequest_first_success secret_backend_result encodeURIComponent_X)
       (simp add: do_fetch_def secret_backend_def backend_always_def epoch_world_def)
  have g1: "get example_vault secret_backend (JStr ''X'') default_options epoch_world
      = (Inr (JStr ''s3cret''), ?v1, ?w1)"
    using get_fetched [where v=example_vault and be=secret_backend and k="''X''"
        and opts=default_options and w=epoch_world, OF _ _ m1]
    by (simp add: example_vault_cache_miss default_options_def)
  have ttl: "(5::int) - 0 < cacheTTL ?v1"
    by (simp add: setCache_def example_vault_def)
  have miss: "\<not> isCacheValid ?v1 (now ?w2) (''secret:'' @ ''X'')"
    by (simp add: isCacheValid_def setCache_def example_vault_def)
  have m2: "makeRequest ?v1 secret_backend ''/key/X'' no_options ?w2
      = (Inr (JObj [(''value'', JStr ''s3cret'')]),
         snd (do_fetch secret_backend (build_request ?v1 ''/key/X'' no_options) ?w2))"
    by (simp add: makeRequest_first_success secret_backend_result)
  have "snd (snd (get ?v1 secret_backend (JStr ''X'') default_options ?w2))
      = snd (makeRequest ?v1 secret_backend (''/key/'' @ encodeURIComponent ''X'') no_options ?w2)"
    by (rule get_miss_world) (use miss in simp_all)
  then have "snd (snd (get ?v1 secret_backend (JStr ''X'') default_options ?w2))
      = snd (makeRequest ?v1 secret_backend ''/key/X'' no_options ?w2)"
    by (simp add: encodeURIComponent_X)
  then have e2: "events (snd (snd (get ?v1 secret_backend (JStr ''X'') default_options ?w2)))
      = [Fetch ?req, Fetch (build_request ?v1 ''/key/X'' no_options)]"
    by (simp add: m2 do_fetch_events)
  from g1 ttl e2 show ?thesis by simp
qed

subsection \<open>Batches\<close>

text \<open>
  C5. The claim: for every list of keys, \<open>getMany\<close> returns a mapping that gives each
  requested key its fetched value, or \<open>null\<close> when its \<open>get\<close> failed. The code
  collects the results in a plain object, \<open>results[key] = ...\<close>. For the key
  \<open>__proto__\<close> that assignment reaches the prototype accessor and writes no property:
  when the secret is fetched (a string), the assignment does nothing and the object
  returned is empty; when the \<open>get\<close> fails, \<open>null\<close> becomes the prototype of the
  object returned, which is empty as well.
\<close>

theorem getMany_proto_key_is_lost:
  "fst (get example_vault secret_backend (JStr ''__proto__'') default_options start_world)
     = Inr (JStr ''s3cret'')
   \<and> fst (getMany example_vault secret_backend (JArr [JStr ''__proto__'']) default_options start_world)
     = Inr \<lparr> own_props = Map.empty, prototype = ProtoObject \<rparr>
   \<and> fst (get example_vault (backend_always (Response 404 ''Not Found'' (Inr (JObj []))))
            (JStr ''__proto__'') default_options start_world)
     = Inl (Thrown (new_Error ''Secret with key '__proto__' not found''))
   \<and> fst (getMany example_vault (backend_always (Response 404 ''Not Found'' (Inr (JObj []))))
            (JArr [JStr ''__proto__'']) default_options start_world)
     = Inr \<lparr> own_props = Map.empty, prototype = ProtoNull \<rparr>"
proof -
  let ?nf = "backend_always (Response 404 ''Not Found'' (Inr (JObj [])))"
  let ?req = "build_request example_vault ''/key/__proto__'' no_options"
  let ?e = "\<lparr> name = ''Error'', message = ''HTTP 404: Not Found'', status = Some 404,
             statusText = Some ''Not Found'', data = Some (JObj []) \<rparr>"
  have f: "\<not> failOnMissing default_options" and u: "useCache default_options = None"
    by (simp_all add: default_options_def)
  have m1: "makeRequest example_vault secret_backend (''/key/'' @ encodeURIComponent ''__proto__'')
        no_options start_world
      = (Inr (JObj [(''value'', JStr ''s3cret'')]), snd (do_fetch secret_backend ?req start_world))"
    by (simp add: makeRequest_first_success secret_backend_result encodeURIComponent_proto)
  have g1: "get example_vault secret_backend (JStr ''__proto__'') default_options start_world
      = (Inr (JStr ''s3cret''),
         setCache example_vault (now (snd (do_fetch secret_backend ?req start_world)))
           (''secret:'' @ ''__proto__'') (JStr ''s3cret''),
         snd (do_fetch secret_backend ?req start_world))"
    using get_fetched [where v=example_vault and be=secret_backend and k="''__proto__''"
        and opts=default_options and w=start_world, OF _ _ m1] u
    by (simp add: example_vault_cache_miss)
  have r1: "fst (getMany example_vault secret_backend (JArr [JStr ''__proto__'']) default_options start_world)
      = Inr \<lparr> own_props = Map.empty, prototype = ProtoObject \<rparr>"
    by (simp add: getMany_single g1 f record_outcome_def assign_property_def
          inherits_proto_accessor_def empty_object_def)
  have hr: "handle_result (fst (?nf (length (calls start_world)) ?req)) = Inl ?e"
    by (simp add: backend_always_def handle_result_def response_ok_def new_Error_def)
  have ce: "is_client_error ?e"
    by (simp add: is_client_error_def)
  have "request_loop example_vault ?nf ?req 0 ThrownUndefined start_world
      = (Inl (Thrown ?e), snd (do_fetch ?nf ?req start_world))"
    by (rule loop_terminal [where be="?nf" and w=start_world, OF _ hr ce]) simp
  then have m2: "makeRequest example_vault ?nf (''/key/'' @ encodeURIComponent ''__proto__'')
        no_options start_world
      = (Inl (Thrown ?e), snd (do_fetch ?nf ?req start_world))"
    by (simp add: makeRequest_def encodeURIComponent_proto)
  have g2: "get example_vault ?nf (JStr ''__proto__'') default_options start_world
      = (Inl (Thrown (new_Error (not_found_message ''__proto__''))), example_vault,
         snd (do_fetch ?nf ?req start_world))"
    by (rule get_not_found [OF _ _ m2]) (simp_all add: example_vault_cache_miss)
  have r2: "fst (getMany example_vault ?nf (JArr [JStr ''__proto__'']) default_options start_world)
      = Inr \<lparr> own_props = Map.empty, prototype = ProtoNull \<rparr>"
    by (simp add: getMany_single g2 f record_outcome_def assign_property_def
          inherits_proto_accessor_def empty_object_def)
  have nf: "not_found_message ''__proto__'' = ''Secret with key '__proto__' not found''"
    by (simp add: not_found_message_def)
  from g1 r1 g2 r2 show ?thesis
    by (simp add: nf)
qed




end
